theory Spec2Isabelle
  imports Main
begin

section \<open>JavaScript values, strings and errors\<close>

text \<open>
  The values that reach \<^verbatim>\<open>helpers/index.js\<close> from its callers are the primitive values of
  a decoded request body. Numbers are the integer-valued ones (a double is exact below
  \<open>2 ^ 53\<close>; nothing in the file computes with a fraction). Strings are ASCII text.
\<close>

datatype jsval = JUndefined | JNull | JBool bool | JNum int | JStr string

text \<open>
  A thrown value. \<^verbatim>\<open>new Error(m)\<close> followed by \<^verbatim>\<open>error.code = n\<close> is
  \<open>new_Error m n\<close>; the errors the runtime itself throws carry no \<^verbatim>\<open>code\<close> property.
\<close>

datatype js_error = JsError (name: string) (msg: string) (code: jsval)

definition new_Error :: "string \<Rightarrow> int \<Rightarrow> js_error" where
  "new_Error m n = JsError ''Error'' m (JNum n)"

definition TypeError :: "string \<Rightarrow> js_error" where
  "TypeError m = JsError ''TypeError'' m JUndefined"

definition ReferenceError :: "string \<Rightarrow> js_error" where
  "ReferenceError m = JsError ''ReferenceError'' m JUndefined"

text \<open>The \<^verbatim>\<open>typeof\<close> operator.\<close>

fun typeof :: "jsval \<Rightarrow> string" where
  "typeof JUndefined = ''undefined''"
| "typeof JNull = ''object''"
| "typeof (JBool _) = ''boolean''"
| "typeof (JNum _) = ''number''"
| "typeof (JStr _) = ''string''"

text \<open>
  \<^verbatim>\<open>Number.prototype.toString\<close> on an integer: its decimal digits below \<open>10 ^ 21\<close>, and
  from there on the exponent notation, one digit, the further digits after a point, and
  the exponent after \<^verbatim>\<open>e+\<close>. The runtime prints the shortest digits that identify the
  double; those are the digits of the integer, without its final zeros, when there are at
  most fifteen of them.
\<close>

definition digit :: "nat \<Rightarrow> char" where
  "digit d = char_of (48 + d)"

function decimal :: "nat \<Rightarrow> string" where
  "decimal n = (if n < 10 then [digit n] else decimal (n div 10) @ [digit (n mod 10)])"
  by pat_completeness auto
termination
  by (relation "measure id") auto

declare decimal.simps [simp del]

definition exponent_form :: "string \<Rightarrow> string" where
  "exponent_form ds =
     (case rev (dropWhile (\<lambda>c. c = CHR ''0'') (rev ds)) of
        [] \<Rightarrow> ds
      | d # more \<Rightarrow>
          d # (if more = [] then [] else CHR ''.'' # more) @ ''e+'' @ decimal (length ds - 1))"

definition unsigned_string :: "nat \<Rightarrow> string" where
  "unsigned_string n =
     (if n < 1000000000000000000000 then decimal n else exponent_form (decimal n))"

definition number_string :: "int \<Rightarrow> string" where
  "number_string i =
     (if i < 0 then CHR ''-'' # unsigned_string (nat (- i)) else unsigned_string (nat i))"

text \<open>
  The conversion of an operand of \<^verbatim>\<open>+\<close> to a string (never fails on a primitive), and the
  method call \<^verbatim>\<open>x.toString()\<close>, which throws a TypeError on \<^verbatim>\<open>undefined\<close> and
  \<^verbatim>\<open>null\<close> because the property lookup fails.
\<close>

fun ToString :: "jsval \<Rightarrow> string" where
  "ToString JUndefined = ''undefined''"
| "ToString JNull = ''null''"
| "ToString (JBool b) = (if b then ''true'' else ''false'')"
| "ToString (JNum i) = number_string i"
| "ToString (JStr x) = x"

fun toString :: "jsval \<Rightarrow> js_error + string" where
  "toString JUndefined = Inl (TypeError ''Cannot read properties of undefined (reading toString)'')"
| "toString JNull = Inl (TypeError ''Cannot read properties of null (reading toString)'')"
| "toString x = Inr (ToString x)"

text \<open>
  \<^verbatim>\<open>String.prototype.toLowerCase\<close> on the ASCII letters; every other character is kept.
\<close>

definition lower_char :: "char \<Rightarrow> char" where
  "lower_char c =
     (let n = (of_char c :: nat) in if 65 \<le> n \<and> n \<le> 90 then char_of (n + 32) else c)"

definition toLowerCase :: "string \<Rightarrow> string" where
  "toLowerCase x = map lower_char x"

text \<open>
  \<^verbatim>\<open>a.localeCompare(b)\<close> compares by the collation of the runtime, not character by
  character. In that collation the control characters U+0000 to U+0008, U+000E to U+001F
  and U+007F carry no weight: two strings that differ only in such characters compare as
  equal. Every other ASCII character has a weight of its own, upper and lower case
  included. The program only ever tests the result against zero, so the sign given to two
  strings that compare as different is not modelled.
\<close>

definition ignorable :: "char \<Rightarrow> bool" where
  "ignorable c =
     (let n = (of_char c :: nat) in n \<le> 8 \<or> (14 \<le> n \<and> n \<le> 31) \<or> n = 127)"

definition collation_key :: "string \<Rightarrow> string" where
  "collation_key x = filter (\<lambda>c. \<not> ignorable c) x"

definition localeCompare :: "string \<Rightarrow> string \<Rightarrow> int" where
  "localeCompare a b = (if collation_key a = collation_key b then 0 else 1)"

text \<open>
  \<^verbatim>\<open>x.substring(2)\<close>: the string without its first two characters. On a value
  that is not a string the method does not exist and the call throws a TypeError.
\<close>

fun substring2 :: "jsval \<Rightarrow> js_error + string" where
  "substring2 (JStr x) = Inr (drop 2 x)"
| "substring2 JUndefined = Inl (TypeError ''Cannot read properties of undefined (reading substring)'')"
| "substring2 JNull = Inl (TypeError ''Cannot read properties of null (reading substring)'')"
| "substring2 _ = Inl (TypeError ''substring is not a function'')"

section \<open>Typed messages\<close>

text \<open>
  An object literal is the list of its properties in the order written. A typed-data
  document has the four properties \<^verbatim>\<open>types\<close>, \<^verbatim>\<open>primaryType\<close>, \<^verbatim>\<open>domain\<close> and
  \<^verbatim>\<open>message\<close>; each entry of \<^verbatim>\<open>types\<close> lists pairs of a field name and its type.
\<close>

type_synonym js_object = "(string \<times> jsval) list"

record typed_data =
  types :: "(string \<times> (string \<times> string) list) list"
  primaryType :: string
  domain :: js_object
  message :: js_object

definition createVoteBySigMessage :: "jsval \<Rightarrow> jsval \<Rightarrow> typed_data" where
  "createVoteBySigMessage id' support =
     \<lparr> types =
         [(''EIP712Domain'',
             [(''name'', ''string''), (''chainId'', ''uint256''),
              (''verifyingContract'', ''address'')]),
          (''VoteEmitted'', [(''id'', ''uint256''), (''support'', ''bool'')])],
       primaryType = ''VoteEmitted'',
       domain =
         [(''name'', JStr ''dYdX Governance''),
          (''chainId'', JNum 1),
          (''verifyingContract'', JStr ''0x7E9B1672616FF6D6629Ef2879419aaE79A9018D2'')],
       message = [(''id'', id'), (''support'', support)] \<rparr>"

definition createDelegateBySigMessage :: "jsval \<Rightarrow> jsval \<Rightarrow> jsval \<Rightarrow> typed_data" where
  "createDelegateBySigMessage delegatee nonce expiry =
     \<lparr> types =
         [(''EIP712Domain'',
             [(''name'', ''string''), (''version'', ''string''), (''chainId'', ''uint256''),
              (''verifyingContract'', ''address'')]),
          (''Delegate'',
             [(''delegatee'', ''address''), (''nonce'', ''uint256''), (''expiry'', ''uint256'')])],
       primaryType = ''Delegate'',
       domain =
         [(''name'', JStr ''dYdX''),
          (''version'', JNum 1),
          (''chainId'', JNum 1),
          (''verifyingContract'', JStr ''0x92D6C1e31e14520e676a687F0a93788B716BEff5'')],
       message =
         [(''delegatee'', delegatee), (''nonce'', nonce), (''expiry'', expiry)] \<rparr>"

section \<open>The collaborators\<close>

text \<open>
  Everything the file reaches outside itself is a field of \<open>world\<close>: the contract reads
  made through web3, the helpers of \<^verbatim>\<open>helpers/database/awaitingTxs\<close>, the two library
  functions \<^verbatim>\<open>web3.utils.isAddress\<close> and \<^verbatim>\<open>recoverTypedSignature\<close>, the HTTP client, the
  clock and the environment. None of them is defined in the file, so each is a parameter.
  A read that can fail yields \<open>Inl\<close> of the value thrown; a helper that only resolves or
  rejects yields \<open>None\<close> or \<open>Some\<close> of the value thrown.

  A contract read returns its promise before it fails, so a failure is the rejection of the
  promise; a read is taken to be sent when it is called, also where the library would
  refuse its arguments before sending. Unsigned chain quantities are natural numbers,
  block heights integers. \<open>parseInt\<close> is the function of that name of the runtime, on the
  decimal string that web3 returns for an unsigned quantity: the double it reads, an
  integer, with \<open>None\<close> for NaN; how a string of more than twenty digits is rounded is the
  runtime's own choice. \<open>MIN_COMP\<close> is \<^verbatim>\<open>parseInt(process.env.MIN_COMP)\<close>;
  \<open>NOTIFICATION_HOOK\<close> is \<^verbatim>\<open>process.env.NOTIFICATION_HOOK\<close>, with \<open>None\<close> for an unset
  variable; \<open>now\<close> is the time \<^verbatim>\<open>new Date()\<close> reads, in milliseconds. When several
  promises given to \<^verbatim>\<open>Promise.all\<close> reject, \<open>race\<close> tells which rejection arrives first.
\<close>

record proposal =
  startBlock :: int
  endBlock :: int
  canceled :: bool

record receipt =
  votingPower :: nat

record world =
  isAddress :: "string \<Rightarrow> bool"
  recoverTypedSignature :: "typed_data \<Rightarrow> string \<Rightarrow> js_error + string"
  balanceOf :: "string \<Rightarrow> js_error + nat"
  getDelegateeByType :: "string \<Rightarrow> nat \<Rightarrow> js_error + string"
  getProposalById :: "jsval \<Rightarrow> js_error + proposal"
  getVoteOnProposal :: "jsval \<Rightarrow> string \<Rightarrow> js_error + receipt"
  getBlockNumber :: "js_error + int"
  getPowerAtBlock :: "string \<Rightarrow> int \<Rightarrow> nat \<Rightarrow> js_error + nat"
  delegationAllowed :: "string \<Rightarrow> js_error option"
  voteAllowed :: "string \<Rightarrow> jsval \<Rightarrow> js_error option"
  insertDelegateTx :: "js_object \<Rightarrow> js_error option"
  insertVoteTx :: "js_object \<Rightarrow> js_error option"
  axios_get :: "string \<Rightarrow> js_error option"
  parseInt :: "nat \<Rightarrow> int option"
  MIN_COMP :: "int option"
  NOTIFICATION_HOOK :: "string option"
  now :: int
  race :: "js_error list \<Rightarrow> js_error"

text \<open>
  What a call does to the outside, in order: a read sent to the chain node or to the
  database, a record handed to the persistence layer, a request to the notification hook.
\<close>

datatype event = Query string | Insert js_object | Notify string

type_synonym 'a outcome = "event list \<times> (js_error + 'a)"

text \<open>
  \<^verbatim>\<open>Promise.all\<close> rejects with the rejection that arrives first. \<open>first_rejected\<close> is
  called only where at least one of the promises rejects, and always yields one of the
  rejections.
\<close>

fun rejection :: "js_error + 'a \<Rightarrow> js_error option" where
  "rejection (Inl e) = Some e"
| "rejection (Inr _) = None"

definition first_rejected :: "world \<Rightarrow> js_error option list \<Rightarrow> js_error" where
  "first_rejected w ps =
     (let es = List.map_filter id ps; e = race w es
      in if e \<in> set es then e else hd es)"

text \<open>
  \<^verbatim>\<open><\<close> on two numbers that may be NaN (\<open>None\<close>): false as soon as one side is NaN.
\<close>

fun js_lt :: "int option \<Rightarrow> int option \<Rightarrow> bool" where
  "js_lt (Some a) (Some b) = (a < b)"
| "js_lt _ _ = False"

section \<open>Delegation eligibility\<close>

text \<open>
  The \<^verbatim>\<open>try\<close> block of \<^verbatim>\<open>canDelegate\<close>: four reads are sent and joined.
\<close>

definition canDelegate_fetch :: "world \<Rightarrow> string \<Rightarrow> (nat \<times> string \<times> string) outcome" where
  "canDelegate_fetch w address =
     (let p1 = balanceOf w address;
          p2 = getDelegateeByType w address 0;
          p3 = getDelegateeByType w address 1;
          p4 = delegationAllowed w address;
          sent = [Query ''balanceOf'', Query ''getDelegateeByType 0'',
                  Query ''getDelegateeByType 1'', Query ''delegationAllowed'']
      in case (p1, p2, p3, p4) of
           (Inr dydxBalance, Inr currentDelegateeVoting, Inr currentDelegateeProposition, None) \<Rightarrow>
             (sent, Inr (dydxBalance, currentDelegateeVoting, currentDelegateeProposition))
         | _ \<Rightarrow>
             (sent, Inl (first_rejected w [rejection p1, rejection p2, rejection p3, p4])))"

text \<open>The two checks that follow the \<^verbatim>\<open>try\<close> block.\<close>

definition canDelegate_checks ::
    "world \<Rightarrow> string \<Rightarrow> nat \<Rightarrow> string \<Rightarrow> string \<Rightarrow> js_error + unit" where
  "canDelegate_checks w delegatee dydxBalance currentDelegateeVoting currentDelegateeProposition =
     (if js_lt (parseInt w dydxBalance) (MIN_COMP w)
      then Inl (new_Error ''dYdX balance too low'' 403)
      else if delegatee \<noteq> ''0x'' \<and>
              localeCompare delegatee (toLowerCase currentDelegateeVoting) = 0 \<and>
              localeCompare delegatee (toLowerCase currentDelegateeProposition) = 0
      then Inl (new_Error ''delegatee can not be current delegatee'' 403)
      else Inr ())"

text \<open>
  \<^verbatim>\<open>canDelegate(address, delegatee = "0x")\<close>. The default is taken for an argument that is
  \<^verbatim>\<open>undefined\<close>. Both \<^verbatim>\<open>toString\<close> calls come before the test
  \<^verbatim>\<open>address === undefined\<close>; by then \<^verbatim>\<open>address\<close> is a string and the test is false,
  so it has no branch here.
\<close>

definition canDelegate :: "world \<Rightarrow> jsval \<Rightarrow> jsval \<Rightarrow> unit outcome" where
  "canDelegate w address delegatee =
     (case toString (if delegatee = JUndefined then JStr ''0x'' else delegatee) of
        Inl e \<Rightarrow> ([], Inl e)
      | Inr d0 \<Rightarrow>
     (case toString address of
        Inl e \<Rightarrow> ([], Inl e)
      | Inr a0 \<Rightarrow>
          let delegatee = toLowerCase d0; address = toLowerCase a0
          in if delegatee \<noteq> ''0x'' \<and> \<not> isAddress w delegatee
             then ([], Inl (new_Error ''invalid delegatee address'' 422))
             else if \<not> isAddress w address
             then ([], Inl (new_Error ''invalid from address'' 422))
             else (case canDelegate_fetch w address of
                     (sent, Inl error) \<Rightarrow>
                       if typeof (code error) = ''number'' then (sent, Inl error)
                       else (sent, Inl (new_Error ''error fetching data from blockchain'' 500))
                   | (sent, Inr (dydxBalance, currentDelegateeVoting, currentDelegateeProposition)) \<Rightarrow>
                       (sent, canDelegate_checks w delegatee dydxBalance
                                currentDelegateeVoting currentDelegateeProposition))))"

section \<open>Voting eligibility\<close>

text \<open>
  The names bound where the body of \<^verbatim>\<open>canVote\<close> is evaluated: the imports and the
  top-level declarations of the module, the parameters and the local declarations of the
  function, and the globals of the runtime that the file uses. The module is an ES module,
  hence strict: reading a name that is not bound throws a ReferenceError.
\<close>

definition module_scope :: "string list" where
  "module_scope =
     [''DYDX_ABI'', ''SIG_RELAYER_ABI'', ''GOVERNOR_ABI'', ''SIG_RELAYER_ADDRESS'',
      ''DYDX_ADDRESS'', ''GOVERNOR_ADDRESS'',
      ''insertDelegateTx'', ''insertVoteTx'', ''delegationAllowed'', ''voteAllowed'',
      ''pendingTransactions'', ''fetchProposals'', ''addProposals'',
      ''fetchCachedProposalsCount'',
      ''Web3'', ''axios'', ''recoverTypedSignature'',
      ''Web3Handler'', ''createVoteBySigMessage'', ''createDelegateBySigMessage'',
      ''canDelegate'', ''canVote'', ''isWhitelisted'', ''vote'', ''delegate'',
      ''getPendingTransactions'',
      ''process'', ''Promise'', ''Error'', ''Date'', ''parseInt'', ''undefined'']"

definition canVote_scope :: "string list" where
  "canVote_scope =
     [''address'', ''proposalId'', ''web3'', ''dydxToken'', ''governor'',
      ''proposal'', ''votesDelegated'', ''receipt'', ''currentBlock''] @ module_scope"

definition resolve :: "string list \<Rightarrow> string \<Rightarrow> js_error + unit" where
  "resolve scope x =
     (if x \<in> set scope then Inr () else Inl (ReferenceError (x @ '' is not defined'')))"

text \<open>
  The \<^verbatim>\<open>try\<close> block of \<^verbatim>\<open>canVote\<close>, evaluated where the names of \<open>scope\<close> are
  bound. The elements of the array given to \<^verbatim>\<open>Promise.all\<close> are evaluated from left to
  right: the proposal read is sent, then the name \<^verbatim>\<open>governorBravo\<close> is read; where it
  is bound, the receipt is read through it. The power snapshot is read after the join.
\<close>

definition canVote_fetch ::
    "string list \<Rightarrow> world \<Rightarrow> string \<Rightarrow> jsval \<Rightarrow>
       (proposal \<times> receipt \<times> int \<times> nat) outcome" where
  "canVote_fetch scope w address proposalId =
     (let p1 = getProposalById w proposalId
      in case resolve scope ''governorBravo'' of
           Inl e \<Rightarrow> ([Query ''getProposalById''], Inl e)
         | Inr _ \<Rightarrow>
             let p2 = getVoteOnProposal w proposalId address;
                 p3 = getBlockNumber w;
                 p4 = voteAllowed w address proposalId;
                 sent = [Query ''getProposalById'', Query ''getVoteOnProposal'',
                         Query ''getBlockNumber'', Query ''voteAllowed'']
             in case (p1, p2, p3, p4) of
                  (Inr proposal, Inr receipt, Inr currentBlock, None) \<Rightarrow>
                    (case getPowerAtBlock w address (startBlock proposal) 0 of
                       Inl e \<Rightarrow> (sent @ [Query ''getPowerAtBlock''], Inl e)
                     | Inr votesDelegated \<Rightarrow>
                         (sent @ [Query ''getPowerAtBlock''],
                          Inr (proposal, receipt, currentBlock, votesDelegated)))
                | _ \<Rightarrow>
                    (sent, Inl (first_rejected w
                                  [rejection p1, rejection p2, rejection p3, p4])))"

definition isWhitelisted :: "string \<Rightarrow> bool" where
  "isWhitelisted address =
     (let whitelist =
        [''0x5b3bffc0bcf8d4caec873fdcf719f60725767c98'',
         ''0x2b384212edc04ae8bb41738d05ba20e33277bf33'']
      in address \<in> set whitelist)"

text \<open>The three checks that follow the \<^verbatim>\<open>try\<close> block.\<close>

definition canVote_checks ::
    "world \<Rightarrow> string \<Rightarrow> proposal \<Rightarrow> nat \<Rightarrow> receipt \<Rightarrow> int \<Rightarrow> js_error + unit" where
  "canVote_checks w address proposal votesDelegated receipt currentBlock =
     (if \<not> (currentBlock > startBlock proposal \<and> currentBlock < endBlock proposal - 2400) \<or>
         canceled proposal
      then Inl (new_Error ''proposal voting period is not active'' 400)
      else if js_lt (parseInt w votesDelegated) (MIN_COMP w) \<and> \<not> isWhitelisted address
      then Inl (new_Error ''dYdX voting power is too low'' 403)
      else if votingPower receipt > 0
      then Inl (new_Error ''address already voted'' 400)
      else Inr ())"

text \<open>
  The body of \<^verbatim>\<open>canVote\<close>, evaluated where the names of \<open>scope\<close> are bound, and the
  function of the module, whose body is evaluated in \<open>canVote_scope\<close>.
\<close>

definition canVote_in :: "string list \<Rightarrow> world \<Rightarrow> jsval \<Rightarrow> jsval \<Rightarrow> unit outcome" where
  "canVote_in scope w address proposalId =
     (if typeof address = ''undefined'' \<or> typeof proposalId = ''undefined''
      then ([], Inl (new_Error ''invalid input'' 422))
      else case toString address of
        Inl e \<Rightarrow> ([], Inl e)
      | Inr a0 \<Rightarrow>
          let address = toLowerCase a0
          in if \<not> isAddress w address
             then ([], Inl (new_Error ''invalid from address'' 422))
             else (case canVote_fetch scope w address proposalId of
                     (sent, Inl erorr) \<Rightarrow>
                       if typeof (code erorr) = ''number'' then (sent, Inl erorr)
                       else (sent, Inl (new_Error ''error fetching data from blockchain'' 500))
                   | (sent, Inr (proposal, receipt, currentBlock, votesDelegated)) \<Rightarrow>
                       (sent, canVote_checks w address proposal votesDelegated
                                receipt currentBlock)))"

definition canVote :: "world \<Rightarrow> jsval \<Rightarrow> jsval \<Rightarrow> unit outcome" where
  "canVote w address proposalId = canVote_in canVote_scope w address proposalId"

section \<open>Submitting a vote or a delegation\<close>

text \<open>
  The signature handed to the recovery, \<^verbatim>\<open>r + s.substring(2) + v.substring(2)\<close>,
  evaluated from left to right.
\<close>

definition signature_of :: "jsval \<Rightarrow> jsval \<Rightarrow> jsval \<Rightarrow> js_error + string" where
  "signature_of v r s =
     (case substring2 s of
        Inl e \<Rightarrow> Inl e
      | Inr s2 \<Rightarrow>
          (case substring2 v of
             Inl e \<Rightarrow> Inl e
           | Inr v2 \<Rightarrow> Inr (ToString r @ s2 @ v2)))"

text \<open>
  The notification that ends both entry points: the request is awaited, outside any
  \<^verbatim>\<open>try\<close>.
\<close>

definition notify :: "world \<Rightarrow> string \<Rightarrow> unit outcome" where
  "notify w note =
     (case NOTIFICATION_HOOK w of
        None \<Rightarrow> ([], Inr ())
      | Some hook \<Rightarrow>
          (case axios_get w (hook @ note) of
             Some e \<Rightarrow> ([Notify (hook @ note)], Inl e)
           | None \<Rightarrow> ([Notify (hook @ note)], Inr ())))"

text \<open>The record \<^verbatim>\<open>newTx\<close> of \<^verbatim>\<open>vote\<close>; the creation date is kept as its time value.\<close>

definition vote_newTx ::
    "world \<Rightarrow> string \<Rightarrow> jsval \<Rightarrow> jsval \<Rightarrow> jsval \<Rightarrow> jsval \<Rightarrow> jsval \<Rightarrow> js_object" where
  "vote_newTx w address proposalId support v r s =
     [(''from'', JStr address), (''v'', v), (''r'', r), (''s'', s),
      (''support'', support), (''proposalId'', proposalId),
      (''type'', JStr ''vote''), (''createdAt'', JNum (now w)),
      (''executed'', JBool False)]"

text \<open>
  The body of \<^verbatim>\<open>vote\<close>, where \<open>scope\<close> lists the names bound in the body of the
  \<^verbatim>\<open>canVote\<close> it calls, and the function of the module.
\<close>

definition vote_in ::
    "string list \<Rightarrow> world \<Rightarrow> jsval \<Rightarrow> jsval \<Rightarrow> jsval \<Rightarrow> jsval \<Rightarrow> jsval \<Rightarrow> jsval \<Rightarrow> unit outcome"
  where
  "vote_in scope w address proposalId support v r s =
     (if JUndefined \<in> set [address, proposalId, support, v, r, s]
      then ([], Inl (new_Error ''invalid input'' 422))
      else case toString address of
        Inl e \<Rightarrow> ([], Inl e)
      | Inr a0 \<Rightarrow>
          let address = toLowerCase a0;
              data = createVoteBySigMessage proposalId support
          in case (case signature_of v r s of
                     Inl e \<Rightarrow> Inl e
                   | Inr signature \<Rightarrow> recoverTypedSignature w data signature) of
               Inl err \<Rightarrow> ([], Inl (new_Error ''invalid signature'' 422))
             | Inr sigAddress0 \<Rightarrow>
                 let sigAddress = toLowerCase sigAddress0
                 in if localeCompare address sigAddress \<noteq> 0
                    then ([], Inl (new_Error ''invalid signature'' 422))
                    else (case canVote_in scope w (JStr address) proposalId of
                            (sent, Inl error) \<Rightarrow>
                              if typeof (code error) = ''number'' then (sent, Inl error)
                              else (sent,
                                    Inl (new_Error ''error fetching data from blockchain'' 500))
                          | (sent, Inr _) \<Rightarrow>
                              let newTx = vote_newTx w address proposalId support v r s
                              in (case insertVoteTx w newTx of
                                    Some e \<Rightarrow> (sent @ [Insert newTx], Inl e)
                                  | None \<Rightarrow>
                                      (case notify w ''New dydx.vote voting sig'' of
                                         (sent', res) \<Rightarrow>
                                           (sent @ [Insert newTx] @ sent', res)))))"

definition vote ::
    "world \<Rightarrow> jsval \<Rightarrow> jsval \<Rightarrow> jsval \<Rightarrow> jsval \<Rightarrow> jsval \<Rightarrow> jsval \<Rightarrow> unit outcome" where
  "vote w address proposalId support v r s =
     vote_in canVote_scope w address proposalId support v r s"

text \<open>The record \<^verbatim>\<open>newTx\<close> of \<^verbatim>\<open>delegate\<close>.\<close>

definition delegate_newTx ::
    "world \<Rightarrow> string \<Rightarrow> string \<Rightarrow> jsval \<Rightarrow> jsval \<Rightarrow> jsval \<Rightarrow> jsval \<Rightarrow> jsval \<Rightarrow> js_object" where
  "delegate_newTx w address delegatee nonce expiry v r s =
     [(''from'', JStr address), (''delegatee'', JStr delegatee),
      (''v'', v), (''r'', r), (''s'', s),
      (''nonce'', nonce), (''expiry'', expiry),
      (''type'', JStr ''delegate''), (''createdAt'', JNum (now w)),
      (''executed'', JBool False)]"

definition delegate ::
    "world \<Rightarrow> jsval \<Rightarrow> jsval \<Rightarrow> jsval \<Rightarrow> jsval \<Rightarrow> jsval \<Rightarrow> jsval \<Rightarrow> jsval \<Rightarrow> unit outcome" where
  "delegate w address delegatee nonce expiry v r s =
     (if JUndefined \<in> set [address, delegatee, nonce, expiry, v, r, s]
      then ([], Inl (new_Error ''invalid input'' 422))
      else case toString address of
        Inl e \<Rightarrow> ([], Inl e)
      | Inr a0 \<Rightarrow>
     (case toString delegatee of
        Inl e \<Rightarrow> ([], Inl e)
      | Inr d0 \<Rightarrow>
          let address = toLowerCase a0;
              delegatee = toLowerCase d0;
              data = createDelegateBySigMessage (JStr delegatee) nonce expiry
          in case (case signature_of v r s of
                     Inl e \<Rightarrow> Inl e
                   | Inr signature \<Rightarrow> recoverTypedSignature w data signature) of
               Inl err \<Rightarrow> ([], Inl (new_Error ''invalid signature'' 422))
             | Inr sigAddress0 \<Rightarrow>
                 let sigAddress = toLowerCase (toLowerCase sigAddress0)
                 in if localeCompare sigAddress address \<noteq> 0
                    then ([], Inl (new_Error ''given address does not match signer address'' 422))
                    else (case canDelegate w (JStr address) (JStr delegatee) of
                            (sent, Inl error) \<Rightarrow>
                              if typeof (code error) = ''number'' then (sent, Inl error)
                              else (sent,
                                    Inl (new_Error ''error fetching data from blockchain'' 500))
                          | (sent, Inr _) \<Rightarrow>
                              let newTx = delegate_newTx w address delegatee nonce expiry v r s
                              in (case insertDelegateTx w newTx of
                                    Some e \<Rightarrow> (sent @ [Insert newTx], Inl e)
                                  | None \<Rightarrow>
                                      (case notify w ''New dydx.vote delegation sig'' of
                                         (sent', res) \<Rightarrow>
                                           (sent @ [Insert newTx] @ sent', res))))))"

section \<open>Vocabulary of the properties\<close>

text \<open>
  A string is lowercased when \<^verbatim>\<open>toLowerCase\<close> leaves it as it is. A record handed to
  the persistence layer has lowercased address fields when \<^verbatim>\<open>from\<close> is a lowercased string
  and \<^verbatim>\<open>delegatee\<close>, where the record has one, is a lowercased string. A call reaches the
  persistence step when it hands a record over. A string is plain when it has no
  character that the collation ignores.
\<close>

definition plain :: "string \<Rightarrow> bool" where
  "plain x = (collation_key x = x)"

definition lowercased :: "string \<Rightarrow> bool" where
  "lowercased x = (toLowerCase x = x)"

definition address_fields_lowercased :: "js_object \<Rightarrow> bool" where
  "address_fields_lowercased tx =
     ((case map_of tx ''from'' of Some (JStr a) \<Rightarrow> lowercased a | _ \<Rightarrow> False) \<and>
      (case map_of tx ''delegatee'' of
         None \<Rightarrow> True | Some (JStr d) \<Rightarrow> lowercased d | Some _ \<Rightarrow> False))"

fun is_Insert :: "event \<Rightarrow> bool" where
  "is_Insert (Insert _) = True"
| "is_Insert _ = False"

definition reaches_persistence :: "'a outcome \<Rightarrow> bool" where
  "reaches_persistence out = list_ex is_Insert (fst out)"

section \<open>A concrete setting\<close>

text \<open>
  The scenario of the specification: a holder with 150 units against a threshold of 100, a
  proposal open from block 1000 to block 9000 seen at block 2000, no vote recorded and
  nothing pending. Addresses are recognised as web3 recognises a lowercase one: forty
  hexadecimal digits after an optional prefix.
\<close>

definition hex_address :: "string \<Rightarrow> bool" where
  "hex_address x =
     (let h = (if take 2 x = ''0x'' then drop 2 x else x)
      in length h = 40 \<and> list_all (\<lambda>c. c \<in> set ''0123456789abcdef'') h)"

definition alice :: string where
  "alice = ''0x5b3bffc0bcf8d4caec873fdcf719f60725767c98''"

definition alice_checksummed :: string where
  "alice_checksummed = ''0x5B3BfFC0bCf8D4CAeC873fdCF719F60725767c98''"

definition bob :: string where
  "bob = ''0x2b384212edc04ae8bb41738d05ba20e33277bf33''"

definition carol :: string where
  "carol = ''0x00000000000000000000000000000000000000c4''"

definition network_error :: js_error where
  "network_error = JsError ''AxiosError'' ''Network Error'' (JStr ''ERR_NETWORK'')"

definition example_world :: world where
  "example_world =
     \<lparr> isAddress = hex_address,
       recoverTypedSignature =
         (\<lambda>data signature. if signature = ''0xaabb1b'' then Inr alice_checksummed
                            else if signature = ''0xccdd1c'' then Inr carol
                            else Inl (JsError ''Error'' ''Invalid signature length'' JUndefined)),
       balanceOf = (\<lambda>a. Inr 150),
       getDelegateeByType = (\<lambda>a t. if t = 0 then Inr bob else Inr carol),
       getProposalById = (\<lambda>p. Inr \<lparr> startBlock = 1000, endBlock = 9000, canceled = False \<rparr>),
       getVoteOnProposal = (\<lambda>p a. Inr \<lparr> votingPower = 0 \<rparr>),
       getBlockNumber = Inr 2000,
       getPowerAtBlock = (\<lambda>a b t. Inr 150),
       delegationAllowed = (\<lambda>a. None),
       voteAllowed = (\<lambda>a p. None),
       insertDelegateTx = (\<lambda>tx. None),
       insertVoteTx = (\<lambda>tx. None),
       axios_get = (\<lambda>url. Some network_error),
       parseInt = (\<lambda>n. Some (int n)),
       MIN_COMP = Some 100,
       NOTIFICATION_HOOK = None,
       now = 1700000000000,
       race = hd \<rparr>"

text \<open>
  Two variations: a setting where both current delegates are the second holder, written
  in upper case, and a setting with a notification hook whose request fails.
\<close>

definition noop_world :: world where
  "noop_world =
     example_world
       \<lparr> getDelegateeByType := (\<lambda>a t. Inr ''0x2B384212EDC04AE8BB41738D05BA20E33277BF33'') \<rparr>"

definition hooked_world :: world where
  "hooked_world =
     example_world \<lparr> NOTIFICATION_HOOK := Some ''https://hook.invalid/send?text='' \<rparr>"

text \<open>
  Further variations: the first holder's address followed by the control character
  U+0001; a setting where the power at the start block is 50, below the threshold; and
  the scope of \<^verbatim>\<open>canVote\<close> with the name \<^verbatim>\<open>governorBravo\<close> bound as well.
\<close>

definition alice_marked :: string where
  "alice_marked = alice_checksummed @ [CHR 0x01]"

definition poor_world :: world where
  "poor_world = example_world \<lparr> getPowerAtBlock := (\<lambda>a b t. Inr 50) \<rparr>"

definition bound_scope :: "string list" where
  "bound_scope = ''governorBravo'' # canVote_scope"

section \<open>Basic facts\<close>

lemma lower_char_idem: "lower_char (lower_char c) = lower_char c"
  by (simp add: lower_char_def Let_def)

lemma toLowerCase_idem: "toLowerCase (toLowerCase x) = toLowerCase x"
  by (simp add: toLowerCase_def lower_char_idem)

lemmas eval_string = toLowerCase_def lower_char_def char_of_def bit_simps

lemma lower_alice: "toLowerCase alice = alice"
  by (simp add: alice_def eval_string)

lemma lower_alice_checksummed: "toLowerCase alice_checksummed = alice"
  by (simp add: alice_def alice_checksummed_def eval_string)

lemma lower_bob: "toLowerCase bob = bob"
  by (simp add: bob_def eval_string)

lemma hex_alice: "hex_address alice"
  by (simp add: alice_def hex_address_def)

lemma hex_bob: "hex_address bob"
  by (simp add: bob_def hex_address_def)

lemma resolve_governorBravo:
  "resolve canVote_scope ''governorBravo'' = Inl (ReferenceError ''governorBravo is not defined'')"
  by (simp add: resolve_def canVote_scope_def module_scope_def)

lemma canVote_fetch_throws:
  "canVote_fetch canVote_scope w a p =
     ([Query ''getProposalById''], Inl (ReferenceError ''governorBravo is not defined''))"
  by (simp add: canVote_fetch_def resolve_governorBravo)

lemma localeCompare_same: "localeCompare a a = 0"
  by (simp add: localeCompare_def)

lemma localeCompare_plain: "plain a \<Longrightarrow> plain b \<Longrightarrow> localeCompare a b = 0 \<longleftrightarrow> a = b"
  by (auto simp: localeCompare_def plain_def)

lemma plain_alice: "plain alice"
  by (simp add: plain_def collation_key_def ignorable_def alice_def)

lemma plain_bob: "plain bob"
  by (simp add: plain_def collation_key_def ignorable_def bob_def)

lemma plain_carol: "plain carol"
  by (simp add: plain_def collation_key_def ignorable_def carol_def)

lemma canVote_validated:
  "typeof address \<noteq> ''undefined'' \<Longrightarrow> typeof proposalId \<noteq> ''undefined'' \<Longrightarrow>
   toString address = Inr a0 \<Longrightarrow> isAddress w (toLowerCase a0) \<Longrightarrow>
   canVote_in canVote_scope w address proposalId =
     ([Query ''getProposalById''], Inl (new_Error ''error fetching data from blockchain'' 500))"
  by (simp add: canVote_in_def canVote_fetch_throws ReferenceError_def)

lemma typeof_undefined: "typeof x = ''undefined'' \<longleftrightarrow> x = JUndefined"
  by (cases x) simp_all

lemma canVote_cases:
  "snd (canVote w address proposalId) = Inl (new_Error ''invalid input'' 422) \<or>
   (\<exists>m. snd (canVote w address proposalId) = Inl (TypeError m)) \<or>
   snd (canVote w address proposalId) = Inl (new_Error ''invalid from address'' 422) \<or>
   snd (canVote w address proposalId) =
     Inl (new_Error ''error fetching data from blockchain'' 500)"
  by (cases address)
     (auto simp: canVote_def canVote_in_def canVote_fetch_throws ReferenceError_def Let_def)

section \<open>Voting eligibility never gets to its rules\<close>

text \<open>
  C2. For every address and proposal id that pass the input validation of \<^verbatim>\<open>canVote\<close>
  (both defined, the address well-formed), the check throws the error with code 500 and
  message "error fetching data from blockchain", having sent only the proposal read: the
  name \<^verbatim>\<open>governorBravo\<close> is not bound, and the ReferenceError is caught in the
  \<^verbatim>\<open>try\<close> block. On no input at all does the check return normally or fail with one of
  its three business rules.
\<close>

theorem canVote_always_chain_error:
  "(address \<noteq> JUndefined \<and> proposalId \<noteq> JUndefined \<and> toString address = Inr a0 \<and>
    isAddress w (toLowerCase a0) \<longrightarrow>
      canVote w address proposalId =
        ([Query ''getProposalById''],
         Inl (new_Error ''error fetching data from blockchain'' 500))) \<and>
   snd (canVote w address proposalId) \<notin>
     {Inr (),
      Inl (new_Error ''proposal voting period is not active'' 400),
      Inl (new_Error ''dYdX voting power is too low'' 403),
      Inl (new_Error ''address already voted'' 400)}"
proof (rule conjI)
  show "address \<noteq> JUndefined \<and> proposalId \<noteq> JUndefined \<and> toString address = Inr a0 \<and>
    isAddress w (toLowerCase a0) \<longrightarrow>
      canVote w address proposalId =
        ([Query ''getProposalById''],
         Inl (new_Error ''error fetching data from blockchain'' 500))"
    by (simp add: canVote_def canVote_validated typeof_undefined)
next
  from canVote_cases [of w address proposalId]
  show "snd (canVote w address proposalId) \<notin>
     {Inr (),
      Inl (new_Error ''proposal voting period is not active'' 400),
      Inl (new_Error ''dYdX voting power is too low'' 403),
      Inl (new_Error ''address already voted'' 400)}"
    by (auto simp: new_Error_def TypeError_def)
qed

theorem canVote_always_chain_error_witness:
  "JStr alice \<noteq> JUndefined \<and> JNum 7 \<noteq> JUndefined \<and> toString (JStr alice) = Inr alice \<and>
   isAddress example_world (toLowerCase alice) \<and>
   canVote example_world (JStr alice) (JNum 7) =
     ([Query ''getProposalById''], Inl (new_Error ''error fetching data from blockchain'' 500))"
  using canVote_always_chain_error [of "JStr alice" "JNum 7" alice example_world]
  by (simp add: lower_alice hex_alice example_world_def)

section \<open>The typed messages\<close>

text \<open>
  C9. The two builders are functions of their arguments alone. For every proposal id and
  support flag the vote document has primary type "VoteEmitted", the message fields
  \<^verbatim>\<open>id\<close> and \<^verbatim>\<open>support\<close> holding the arguments, and the domain of the governance
  contract; for every delegatee, nonce and expiry the delegation document has primary type
  "Delegate", the message fields \<^verbatim>\<open>delegatee\<close>, \<^verbatim>\<open>nonce\<close> and \<^verbatim>\<open>expiry\<close> holding the
  arguments, and the domain of the token contract. The type tables do not depend on the
  arguments.
\<close>

theorem typed_messages_fixed:
  "primaryType (createVoteBySigMessage id' support) = ''VoteEmitted'' \<and>
   message (createVoteBySigMessage id' support) = [(''id'', id'), (''support'', support)] \<and>
   domain (createVoteBySigMessage id' support) =
     [(''name'', JStr ''dYdX Governance''), (''chainId'', JNum 1),
      (''verifyingContract'', JStr ''0x7E9B1672616FF6D6629Ef2879419aaE79A9018D2'')] \<and>
   types (createVoteBySigMessage id' support) = types (createVoteBySigMessage JNull JNull) \<and>
   primaryType (createDelegateBySigMessage delegatee nonce expiry) = ''Delegate'' \<and>
   message (createDelegateBySigMessage delegatee nonce expiry) =
     [(''delegatee'', delegatee), (''nonce'', nonce), (''expiry'', expiry)] \<and>
   domain (createDelegateBySigMessage delegatee nonce expiry) =
     [(''name'', JStr ''dYdX''), (''version'', JNum 1), (''chainId'', JNum 1),
      (''verifyingContract'', JStr ''0x92D6C1e31e14520e676a687F0a93788B716BEff5'')] \<and>
   types (createDelegateBySigMessage delegatee nonce expiry) =
     types (createDelegateBySigMessage JNull JNull JNull)"
  by (simp add: createVoteBySigMessage_def createDelegateBySigMessage_def)

section \<open>A signature from another key\<close>

text \<open>
  Where all six arguments are supplied and the address is not null, \<^verbatim>\<open>vote\<close> fails
  with "invalid signature" as soon as building the signature or the recovery throws, or
  the collation tells the lowercased signer from the lowercased address. Nothing is sent
  and nothing is handed to the persistence layer.
\<close>

lemma vote_signature_rejected:
  assumes supplied: "JUndefined \<notin> set [address, proposalId, support, v, r, s]"
    and claimed: "toString address = Inr a0"
    and other_key:
      "case signature_of v r s of
         Inl e \<Rightarrow> True
       | Inr signature \<Rightarrow>
           (case recoverTypedSignature w (createVoteBySigMessage proposalId support) signature of
              Inl e \<Rightarrow> True
            | Inr signer \<Rightarrow> localeCompare (toLowerCase a0) (toLowerCase signer) \<noteq> 0)"
  shows "vote_in scope w address proposalId support v r s =
           ([], Inl (new_Error ''invalid signature'' 422))"
  using assms
  by (auto simp: vote_in_def Let_def split: sum.splits)

lemma signature_example: "signature_of (JStr ''0x1c'') (JStr ''0xcc'') (JStr ''0xdd'') = Inr ''0xccdd1c''"
  by (simp add: signature_of_def)

lemma signature_alice:
  "signature_of (JStr ''0x1b'') (JStr ''0xaa'') (JStr ''0xbb'') = Inr ''0xaabb1b''"
  by (simp add: signature_of_def)

lemma lower_carol: "toLowerCase carol = carol"
  by (simp add: carol_def eval_string)

lemma lower_alice_marked: "toLowerCase alice_marked = alice @ [CHR 0x01]"
  by (simp add: alice_marked_def alice_def alice_checksummed_def eval_string)

lemma key_alice_marked: "collation_key (alice @ [CHR 0x01]) = alice"
  by (simp add: collation_key_def ignorable_def alice_def)

text \<open>
  C4. A claimed address that is the signer's address followed by the control character
  U+0001 differs from the recovered signer, also when both are lowercased. The collation
  ignores that character, so the test of the signer passes, and the call fails in
  \<^verbatim>\<open>canVote\<close> with "invalid from address" instead of "invalid signature". With a
  null address and any signature the call throws a TypeError that has no code.
\<close>

theorem vote_ignorable_address:
  "signature_of (JStr ''0x1b'') (JStr ''0xaa'') (JStr ''0xbb'') = Inr ''0xaabb1b'' \<and>
   recoverTypedSignature example_world (createVoteBySigMessage (JNum 7) (JBool True)) ''0xaabb1b'' =
     Inr alice_checksummed \<and>
   toLowerCase alice_marked \<noteq> toLowerCase alice_checksummed \<and>
   localeCompare (toLowerCase alice_marked) (toLowerCase alice_checksummed) = 0 \<and>
   vote example_world (JStr alice_marked) (JNum 7) (JBool True)
        (JStr ''0x1b'') (JStr ''0xaa'') (JStr ''0xbb'') =
     ([], Inl (new_Error ''invalid from address'' 422)) \<and>
   vote example_world JNull (JNum 7) (JBool True) (JStr ''0x1c'') (JStr ''0xcc'') (JStr ''0xdd'') =
     ([], Inl (TypeError ''Cannot read properties of null (reading toString)''))"
proof -
  have signer: "recoverTypedSignature example_world d ''0xaabb1b'' = Inr alice_checksummed" for d
    by (simp add: example_world_def)
  have differs: "toLowerCase alice_marked \<noteq> toLowerCase alice_checksummed"
    by (simp add: lower_alice_marked lower_alice_checksummed)
  have passes: "localeCompare (toLowerCase alice_marked) (toLowerCase alice_checksummed) = 0"
    by (simp add: lower_alice_marked lower_alice_checksummed localeCompare_def key_alice_marked
          plain_alice [unfolded plain_def])
  have invalid: "\<not> isAddress example_world (alice @ [CHR 0x01])"
    by (simp add: example_world_def hex_address_def alice_def)
  have check: "canVote_in canVote_scope example_world (JStr (alice @ [CHR 0x01])) (JNum 7) =
      ([], Inl (new_Error ''invalid from address'' 422))"
    using invalid
    by (simp add: canVote_in_def toLowerCase_idem [of alice_marked, unfolded lower_alice_marked])
  have marked: "vote example_world (JStr alice_marked) (JNum 7) (JBool True)
        (JStr ''0x1b'') (JStr ''0xaa'') (JStr ''0xbb'') =
     ([], Inl (new_Error ''invalid from address'' 422))"
    using passes
    by (simp add: vote_def vote_in_def signature_alice signer lower_alice_marked
          lower_alice_checksummed check new_Error_def)
  have null: "vote example_world JNull (JNum 7) (JBool True)
        (JStr ''0x1c'') (JStr ''0xcc'') (JStr ''0xdd'') =
     ([], Inl (TypeError ''Cannot read properties of null (reading toString)''))"
    by (simp add: vote_def vote_in_def)
  from signature_alice signer differs passes marked null show ?thesis
    by (intro conjI)
qed

section \<open>Delegating to the current delegate\<close>

lemma canDelegate_fetch_ok:
  "balanceOf w a = Inr bal \<Longrightarrow> getDelegateeByType w a 0 = Inr dv \<Longrightarrow>
   getDelegateeByType w a 1 = Inr dp \<Longrightarrow> delegationAllowed w a = None \<Longrightarrow>
   snd (canDelegate_fetch w a) = Inr (bal, dv, dp)"
  by (simp add: canDelegate_fetch_def)

lemma canDelegate_after_fetch:
  assumes "toString (if delegatee = JUndefined then JStr ''0x'' else delegatee) = Inr d0"
    and "toString address = Inr a0"
    and "toLowerCase d0 = ''0x'' \<or> isAddress w (toLowerCase d0)"
    and "isAddress w (toLowerCase a0)"
    and "snd (canDelegate_fetch w (toLowerCase a0)) = Inr (bal, dv, dp)"
  shows "snd (canDelegate w address delegatee) = canDelegate_checks w (toLowerCase d0) bal dv dp"
  using assms
  by (cases "canDelegate_fetch w (toLowerCase a0)") (auto simp: canDelegate_def Let_def)

text \<open>
  C6. When \<^verbatim>\<open>canDelegate\<close> gets past its input validation, its reads and the balance
  threshold, it fails with "delegatee can not be current delegatee" exactly when a
  delegatee was given (not the sentinel "0x") and it compares as equal, once lowercased,
  to both the current delegate for voting and the current delegate for proposition. When
  it differs from one of the two, or none was given, the check passes. On plain strings,
  as addresses are, to compare as equal is to be equal.
\<close>

theorem canDelegate_noop_iff:
  assumes delegatee: "toString (if delegatee = JUndefined then JStr ''0x'' else delegatee) = Inr d0"
    and address: "toString address = Inr a0"
    and valid_delegatee: "toLowerCase d0 = ''0x'' \<or> isAddress w (toLowerCase d0)"
    and valid_address: "isAddress w (toLowerCase a0)"
    and balance: "balanceOf w (toLowerCase a0) = Inr bal"
    and voting: "getDelegateeByType w (toLowerCase a0) 0 = Inr dv"
    and proposing: "getDelegateeByType w (toLowerCase a0) 1 = Inr dp"
    and allowed: "delegationAllowed w (toLowerCase a0) = None"
    and enough: "\<not> js_lt (parseInt w bal) (MIN_COMP w)"
  shows "snd (canDelegate w address delegatee) =
           (if toLowerCase d0 \<noteq> ''0x'' \<and>
               localeCompare (toLowerCase d0) (toLowerCase dv) = 0 \<and>
               localeCompare (toLowerCase d0) (toLowerCase dp) = 0
            then Inl (new_Error ''delegatee can not be current delegatee'' 403)
            else Inr ()) \<and>
         (plain (toLowerCase d0) \<and> plain (toLowerCase dv) \<and> plain (toLowerCase dp) \<longrightarrow>
          snd (canDelegate w address delegatee) =
            (if toLowerCase d0 \<noteq> ''0x'' \<and> toLowerCase d0 = toLowerCase dv \<and>
                toLowerCase d0 = toLowerCase dp
             then Inl (new_Error ''delegatee can not be current delegatee'' 403)
             else Inr ()))"
proof -
  have "snd (canDelegate_fetch w (toLowerCase a0)) = Inr (bal, dv, dp)"
    using balance voting proposing allowed by (rule canDelegate_fetch_ok)
  with delegatee address valid_delegatee valid_address
  have "snd (canDelegate w address delegatee) = canDelegate_checks w (toLowerCase d0) bal dv dp"
    by (rule canDelegate_after_fetch)
  with enough have exact: "snd (canDelegate w address delegatee) =
           (if toLowerCase d0 \<noteq> ''0x'' \<and>
               localeCompare (toLowerCase d0) (toLowerCase dv) = 0 \<and>
               localeCompare (toLowerCase d0) (toLowerCase dp) = 0
            then Inl (new_Error ''delegatee can not be current delegatee'' 403)
            else Inr ())"
    by (simp add: canDelegate_checks_def)
  then show ?thesis
    by (simp add: localeCompare_plain)
qed

lemma lower_bob_upper: "toLowerCase ''0x2B384212EDC04AE8BB41738D05BA20E33277BF33'' = bob"
  by (simp add: bob_def eval_string)

lemma bob_facts: "bob \<noteq> ''0x''" "bob \<noteq> carol"
  by (simp_all add: bob_def carol_def)

theorem canDelegate_noop_iff_witness:
  "snd (canDelegate noop_world (JStr alice) (JStr bob)) =
     Inl (new_Error ''delegatee can not be current delegatee'' 403) \<and>
   snd (canDelegate example_world (JStr alice) (JStr bob)) = Inr () \<and>
   snd (canDelegate noop_world (JStr alice) JUndefined) = Inr ()"
proof -
  let ?BOB = "''0x2B384212EDC04AE8BB41738D05BA20E33277BF33''"
  have a: "toString (JStr alice) = Inr alice"
    and b: "toString (if JStr bob = JUndefined then JStr ''0x'' else JStr bob) = Inr bob"
    and z: "toString (if JUndefined = JUndefined then JStr ''0x'' else JUndefined) = Inr ''0x''"
    by simp_all
  have sentinel: "toLowerCase ''0x'' = ''0x''"
    by (simp add: eval_string)
  have va: "isAddress noop_world (toLowerCase alice)" "isAddress example_world (toLowerCase alice)"
    by (simp_all add: noop_world_def example_world_def lower_alice hex_alice)
  have vb: "toLowerCase bob = ''0x'' \<or> isAddress noop_world (toLowerCase bob)"
    "toLowerCase bob = ''0x'' \<or> isAddress example_world (toLowerCase bob)"
    by (simp_all add: noop_world_def example_world_def lower_bob hex_bob)
  have vz: "toLowerCase ''0x'' = ''0x'' \<or> isAddress noop_world (toLowerCase ''0x'')"
    by (simp add: sentinel)
  have reads:
    "balanceOf noop_world (toLowerCase alice) = Inr 150"
    "getDelegateeByType noop_world (toLowerCase alice) 0 = Inr ?BOB"
    "getDelegateeByType noop_world (toLowerCase alice) 1 = Inr ?BOB"
    "delegationAllowed noop_world (toLowerCase alice) = None"
    by (simp_all add: noop_world_def example_world_def)
  have reads':
    "balanceOf example_world (toLowerCase alice) = Inr 150"
    "getDelegateeByType example_world (toLowerCase alice) 0 = Inr bob"
    "getDelegateeByType example_world (toLowerCase alice) 1 = Inr carol"
    "delegationAllowed example_world (toLowerCase alice) = None"
    by (simp_all add: example_world_def)
  have enough: "\<not> js_lt (parseInt noop_world 150) (MIN_COMP noop_world)"
    "\<not> js_lt (parseInt example_world 150) (MIN_COMP example_world)"
    by (simp_all add: noop_world_def example_world_def)
  from canDelegate_noop_iff [OF b a vb(1) va(1) reads enough(1)]
  have 1: "snd (canDelegate noop_world (JStr alice) (JStr bob)) =
     Inl (new_Error ''delegatee can not be current delegatee'' 403)"
    by (simp add: lower_bob lower_bob_upper localeCompare_same bob_facts)
  from canDelegate_noop_iff [OF b a vb(2) va(2) reads' enough(2)]
  have 2: "snd (canDelegate example_world (JStr alice) (JStr bob)) = Inr ()"
    by (simp add: lower_bob lower_carol localeCompare_plain plain_bob plain_carol bob_facts)
  from canDelegate_noop_iff [OF z a vz va(1) reads enough(1)]
  have 3: "snd (canDelegate noop_world (JStr alice) JUndefined) = Inr ()"
    by (simp add: sentinel)
  from 1 2 3 show ?thesis by (intro conjI)
qed

section \<open>An undefined source address\<close>

text \<open>
  C7. With an undefined source address \<^verbatim>\<open>canDelegate\<close> does not fail with code 422: the
  call \<^verbatim>\<open>address.toString()\<close> throws a TypeError, which has no code, before the test
  for an undefined address is reached. This holds whatever the delegatee is.
\<close>

theorem canDelegate_undefined_address:
  "canDelegate w JUndefined JUndefined =
     ([], Inl (TypeError ''Cannot read properties of undefined (reading toString)'')) \<and>
   (\<exists>m. canDelegate w JUndefined delegatee = ([], Inl (TypeError m))) \<and>
   code (TypeError m) = JUndefined \<and>
   TypeError m \<noteq> new_Error m' 422"
  by (cases delegatee) (simp_all add: canDelegate_def TypeError_def new_Error_def)

text \<open>
  For a source address and a delegatee on which \<^verbatim>\<open>toString\<close> succeeds, an invalid
  address or an invalid delegatee gives an error of code 422 before anything is sent.
\<close>

lemma canDelegate_invalid_input:
  assumes "toString (if delegatee = JUndefined then JStr ''0x'' else delegatee) = Inr d0"
    and "toString address = Inr a0"
    and "\<not> isAddress w (toLowerCase a0) \<or>
         (toLowerCase d0 \<noteq> ''0x'' \<and> \<not> isAddress w (toLowerCase d0))"
  shows "\<exists>m. canDelegate w address delegatee = ([], Inl (new_Error m 422))"
  using assms by (auto simp: canDelegate_def Let_def)

section \<open>The vote that should have been accepted\<close>

lemma canVote_fails:
  "\<exists>sent e. canVote_in canVote_scope w x p = (sent, Inl e) \<and> \<not> list_ex is_Insert sent"
  by (cases x)
     (auto simp: canVote_def canVote_in_def canVote_fetch_throws ReferenceError_def Let_def)

text \<open>No call of \<^verbatim>\<open>vote\<close> returns normally or reaches the persistence step.\<close>

lemma vote_never_persists:
  "snd (vote w address proposalId support v r s) \<noteq> Inr () \<and>
   \<not> reaches_persistence (vote w address proposalId support v r s)"
proof (cases "toString address")
  case (Inl e)
  then show ?thesis
    by (simp add: vote_def vote_in_def reaches_persistence_def)
next
  case (Inr a0)
  obtain sent e where
    c: "canVote_in canVote_scope w (JStr (toLowerCase a0)) proposalId = (sent, Inl e)"
    "\<not> list_ex is_Insert sent"
    using canVote_fails by blast
  show ?thesis
    using Inr c
    by (simp add: vote_def vote_in_def Let_def reaches_persistence_def split: sum.splits)
qed

text \<open>
  C1. In the concrete setting the holder meets every precondition: the proposal is open
  at the current block and not canceled, the power at the start block is 150 against a
  threshold of 100, no vote is recorded, nothing is pending, and the signature recovers
  to the holder. The three checks after the reads would pass on these values. The call of
  \<^verbatim>\<open>vote\<close> nevertheless fails with code 500 after the proposal read, and hands
  nothing to the persistence layer.
\<close>

theorem vote_scenario_fails:
  "getProposalById example_world (JNum 7) =
     Inr \<lparr> startBlock = 1000, endBlock = 9000, canceled = False \<rparr> \<and>
   getBlockNumber example_world = Inr 2000 \<and>
   getPowerAtBlock example_world alice 1000 0 = Inr 150 \<and>
   getVoteOnProposal example_world (JNum 7) alice = Inr \<lparr> votingPower = 0 \<rparr> \<and>
   voteAllowed example_world alice (JNum 7) = None \<and>
   MIN_COMP example_world = Some 100 \<and>
   canVote_checks example_world alice
     \<lparr> startBlock = 1000, endBlock = 9000, canceled = False \<rparr> 150 \<lparr> votingPower = 0 \<rparr> 2000 = Inr () \<and>
   signature_of (JStr ''0x1b'') (JStr ''0xaa'') (JStr ''0xbb'') = Inr ''0xaabb1b'' \<and>
   recoverTypedSignature example_world (createVoteBySigMessage (JNum 7) (JBool True)) ''0xaabb1b'' =
     Inr alice_checksummed \<and>
   vote example_world (JStr alice_checksummed) (JNum 7) (JBool True)
        (JStr ''0x1b'') (JStr ''0xaa'') (JStr ''0xbb'') =
     ([Query ''getProposalById''], Inl (new_Error ''error fetching data from blockchain'' 500))"
proof -
  have setting:
    "getProposalById example_world (JNum 7) =
       Inr \<lparr> startBlock = 1000, endBlock = 9000, canceled = False \<rparr>"
    "getBlockNumber example_world = Inr 2000"
    "getPowerAtBlock example_world alice 1000 0 = Inr 150"
    "getVoteOnProposal example_world (JNum 7) alice = Inr \<lparr> votingPower = 0 \<rparr>"
    "voteAllowed example_world alice (JNum 7) = None"
    "MIN_COMP example_world = Some 100"
    by (simp_all add: example_world_def)
  have rules: "canVote_checks example_world alice
     \<lparr> startBlock = 1000, endBlock = 9000, canceled = False \<rparr> 150 \<lparr> votingPower = 0 \<rparr> 2000 = Inr ()"
    by (simp add: canVote_checks_def example_world_def)
  have check: "canVote_in canVote_scope example_world (JStr alice) (JNum 7) =
     ([Query ''getProposalById''], Inl (new_Error ''error fetching data from blockchain'' 500))"
    by (simp add: canVote_validated lower_alice hex_alice example_world_def)
  have signer: "recoverTypedSignature example_world d ''0xaabb1b'' = Inr alice_checksummed" for d
    by (simp add: example_world_def)
  have "vote example_world (JStr alice_checksummed) (JNum 7) (JBool True)
        (JStr ''0x1b'') (JStr ''0xaa'') (JStr ''0xbb'') =
     ([Query ''getProposalById''], Inl (new_Error ''error fetching data from blockchain'' 500))"
    by (simp add: vote_def vote_in_def signature_alice signer lower_alice_checksummed lower_alice
          localeCompare_same localeCompare_plain plain_alice plain_bob plain_carol check)
  with setting rules signature_alice signer show ?thesis by simp
qed

theorem vote_scenario_fails_witness:
  "snd (vote example_world (JStr alice_checksummed) (JNum 7) (JBool True)
          (JStr ''0x1b'') (JStr ''0xaa'') (JStr ''0xbb'')) \<noteq> Inr () \<and>
   \<not> reaches_persistence
       (vote example_world (JStr alice_checksummed) (JNum 7) (JBool True)
          (JStr ''0x1b'') (JStr ''0xaa'') (JStr ''0xbb''))"
  using vote_scenario_fails by (simp add: reaches_persistence_def)

section \<open>The voting window\<close>

text \<open>
  The check written after the reads rejects exactly outside the window, or when the
  proposal is canceled.
\<close>

lemma canVote_checks_window:
  "canVote_checks w a p votes rc currentBlock =
       Inl (new_Error ''proposal voting period is not active'' 400)
   \<longleftrightarrow> \<not> (startBlock p < currentBlock \<and> currentBlock < endBlock p - 2400) \<or> canceled p"
  by (simp add: canVote_checks_def new_Error_def)

text \<open>
  C5. At a current block equal to the start block of the proposal, where the window test
  must reject, \<^verbatim>\<open>canVote\<close> fails with the error of code 500 and not with "proposal
  voting period is not active": the window test is never reached.
\<close>

theorem canVote_window_unreachable:
  "getBlockNumber (example_world \<lparr> getBlockNumber := Inr 1000 \<rparr>) = Inr 1000 \<and>
   getProposalById (example_world \<lparr> getBlockNumber := Inr 1000 \<rparr>) (JNum 7) =
     Inr \<lparr> startBlock = 1000, endBlock = 9000, canceled = False \<rparr> \<and>
   snd (canVote (example_world \<lparr> getBlockNumber := Inr 1000 \<rparr>) (JStr alice) (JNum 7)) =
     Inl (new_Error ''error fetching data from blockchain'' 500) \<and>
   snd (canVote (example_world \<lparr> getBlockNumber := Inr 1000 \<rparr>) (JStr alice) (JNum 7)) \<noteq>
     Inl (new_Error ''proposal voting period is not active'' 400)"
proof -
  have "canVote (example_world \<lparr> getBlockNumber := Inr 1000 \<rparr>) (JStr alice) (JNum 7) =
     ([Query ''getProposalById''], Inl (new_Error ''error fetching data from blockchain'' 500))"
    by (simp add: canVote_def canVote_validated lower_alice hex_alice example_world_def)
  then show ?thesis
    by (simp add: new_Error_def example_world_def)
qed

section \<open>The notification\<close>

lemma delegate_after_signature:
  assumes supplied: "JUndefined \<notin> set [address, delegatee, nonce, expiry, v, r, s]"
    and address: "toString address = Inr a0"
    and delegatee: "toString delegatee = Inr d0"
    and signature: "signature_of v r s = Inr g"
    and signer: "recoverTypedSignature w
                   (createDelegateBySigMessage (JStr (toLowerCase d0)) nonce expiry) g = Inr sa"
    and matches: "toLowerCase sa = toLowerCase a0"
  shows "delegate w address delegatee nonce expiry v r s =
           (case canDelegate w (JStr (toLowerCase a0)) (JStr (toLowerCase d0)) of
              (sent, Inl error) \<Rightarrow>
                if typeof (code error) = ''number'' then (sent, Inl error)
                else (sent, Inl (new_Error ''error fetching data from blockchain'' 500))
            | (sent, Inr _) \<Rightarrow>
                (case insertDelegateTx w
                        (delegate_newTx w (toLowerCase a0) (toLowerCase d0) nonce expiry v r s) of
                   Some e \<Rightarrow>
                     (sent @ [Insert (delegate_newTx w (toLowerCase a0) (toLowerCase d0)
                                        nonce expiry v r s)],
                      Inl e)
                 | None \<Rightarrow>
                     (case notify w ''New dydx.vote delegation sig'' of
                        (sent', res) \<Rightarrow>
                          (sent @ [Insert (delegate_newTx w (toLowerCase a0) (toLowerCase d0)
                                             nonce expiry v r s)] @ sent',
                           res))))"
  using assms
  by (simp add: delegate_def Let_def localeCompare_same localeCompare_plain plain_alice plain_bob plain_carol toLowerCase_idem)

text \<open>
  C3 (amended). For every call of \<^verbatim>\<open>delegate\<close> that passes the signature and
  eligibility checks and whose record the persistence layer accepts, the record has been
  handed over, and the call returns normally when no hook is configured or the request
  to the hook succeeds; when the request fails, the call fails with the error of the
  request.
\<close>

theorem delegate_notification_outcome:
  assumes supplied: "JUndefined \<notin> set [address, delegatee, nonce, expiry, v, r, s]"
    and address: "toString address = Inr a0"
    and delegatee: "toString delegatee = Inr d0"
    and signature: "signature_of v r s = Inr g"
    and signer: "recoverTypedSignature w
                   (createDelegateBySigMessage (JStr (toLowerCase d0)) nonce expiry) g = Inr sa"
    and matches: "toLowerCase sa = toLowerCase a0"
    and eligible: "snd (canDelegate w (JStr (toLowerCase a0)) (JStr (toLowerCase d0))) = Inr ()"
    and persisted: "insertDelegateTx w
                      (delegate_newTx w (toLowerCase a0) (toLowerCase d0) nonce expiry v r s) = None"
  shows "Insert (delegate_newTx w (toLowerCase a0) (toLowerCase d0) nonce expiry v r s)
           \<in> set (fst (delegate w address delegatee nonce expiry v r s)) \<and>
         snd (delegate w address delegatee nonce expiry v r s) =
           (case NOTIFICATION_HOOK w of
              None \<Rightarrow> Inr ()
            | Some hook \<Rightarrow>
                (case axios_get w (hook @ ''New dydx.vote delegation sig'') of
                   None \<Rightarrow> Inr ()
                 | Some e \<Rightarrow> Inl e))"
proof -
  obtain sent where "canDelegate w (JStr (toLowerCase a0)) (JStr (toLowerCase d0)) = (sent, Inr ())"
    using eligible by (cases "canDelegate w (JStr (toLowerCase a0)) (JStr (toLowerCase d0))") simp
  with persisted
    delegate_after_signature [OF supplied address delegatee signature signer matches]
  show ?thesis
    by (simp add: Let_def notify_def split: option.splits)
qed

lemma canDelegate_example:
  "canDelegate example_world (JStr alice) (JStr bob) =
     ([Query ''balanceOf'', Query ''getDelegateeByType 0'',
       Query ''getDelegateeByType 1'', Query ''delegationAllowed''], Inr ())"
  by (simp add: canDelegate_def canDelegate_fetch_def canDelegate_checks_def
        localeCompare_same localeCompare_plain plain_alice plain_bob plain_carol lower_alice lower_bob lower_carol hex_alice hex_bob example_world_def)
     (simp add: bob_def carol_def)

lemma canDelegate_hooked:
  "canDelegate hooked_world (JStr alice) (JStr bob) =
     ([Query ''balanceOf'', Query ''getDelegateeByType 0'',
       Query ''getDelegateeByType 1'', Query ''delegationAllowed''], Inr ())"
proof -
  have "isAddress hooked_world = hex_address"
    by (simp add: hooked_world_def example_world_def)
  moreover have "canDelegate_fetch hooked_world alice =
     ([Query ''balanceOf'', Query ''getDelegateeByType 0'',
       Query ''getDelegateeByType 1'', Query ''delegationAllowed''], Inr (150, bob, carol))"
    by (simp add: canDelegate_fetch_def hooked_world_def example_world_def)
  moreover have "canDelegate_checks hooked_world bob 150 bob carol = Inr ()"
    by (simp add: canDelegate_checks_def localeCompare_same localeCompare_plain plain_alice plain_bob plain_carol lower_bob lower_carol
          hooked_world_def example_world_def)
       (simp add: bob_def carol_def)
  ultimately show ?thesis
    by (simp add: canDelegate_def lower_alice lower_bob hex_alice hex_bob)
qed

lemma hooked_signer:
  "recoverTypedSignature hooked_world d ''0xaabb1b'' = Inr alice_checksummed"
  by (simp add: hooked_world_def example_world_def)

text \<open>
  C3 as stated fails: with a hook configured and its request failing, \<^verbatim>\<open>delegate\<close>
  hands the record over, the persistence layer accepts it, and the call fails with the
  error of the request.
\<close>

theorem notification_failure_surfaces:
  "Insert (delegate_newTx hooked_world alice bob (JNum 0) (JNum 1800000000)
             (JStr ''0x1b'') (JStr ''0xaa'') (JStr ''0xbb''))
     \<in> set (fst (delegate hooked_world (JStr alice) (JStr bob) (JNum 0) (JNum 1800000000)
                    (JStr ''0x1b'') (JStr ''0xaa'') (JStr ''0xbb''))) \<and>
   insertDelegateTx hooked_world
     (delegate_newTx hooked_world alice bob (JNum 0) (JNum 1800000000)
        (JStr ''0x1b'') (JStr ''0xaa'') (JStr ''0xbb'')) = None \<and>
   snd (delegate hooked_world (JStr alice) (JStr bob) (JNum 0) (JNum 1800000000)
          (JStr ''0x1b'') (JStr ''0xaa'') (JStr ''0xbb'')) = Inl network_error"
proof -
  have hook: "notify hooked_world ''New dydx.vote delegation sig'' =
      ([Notify ''https://hook.invalid/send?text=New dydx.vote delegation sig''], Inl network_error)"
    by (simp add: notify_def hooked_world_def example_world_def)
  have store: "insertDelegateTx hooked_world tx = None" for tx
    by (simp add: hooked_world_def example_world_def)
  show ?thesis
    by (simp add: delegate_def signature_alice hooked_signer lower_alice lower_bob
          lower_alice_checksummed localeCompare_same localeCompare_plain plain_alice plain_bob plain_carol canDelegate_hooked store hook)
qed

theorem delegate_notification_outcome_witness:
  "Insert (delegate_newTx example_world alice bob (JNum 0) (JNum 1800000000)
             (JStr ''0x1b'') (JStr ''0xaa'') (JStr ''0xbb''))
     \<in> set (fst (delegate example_world (JStr alice_checksummed) (JStr bob) (JNum 0)
                    (JNum 1800000000) (JStr ''0x1b'') (JStr ''0xaa'') (JStr ''0xbb''))) \<and>
   snd (delegate example_world (JStr alice_checksummed) (JStr bob) (JNum 0) (JNum 1800000000)
          (JStr ''0x1b'') (JStr ''0xaa'') (JStr ''0xbb'')) = Inr () \<and>
   snd (delegate hooked_world (JStr alice_checksummed) (JStr bob) (JNum 0) (JNum 1800000000)
          (JStr ''0x1b'') (JStr ''0xaa'') (JStr ''0xbb'')) = Inl network_error"
proof -
  have supplied: "JUndefined \<notin> set [JStr alice_checksummed, JStr bob, JNum 0, JNum 1800000000,
      JStr ''0x1b'', JStr ''0xaa'', JStr ''0xbb'']"
    by simp
  have a: "toString (JStr alice_checksummed) = Inr alice_checksummed"
    and b: "toString (JStr bob) = Inr bob"
    by simp_all
  have m: "toLowerCase alice_checksummed = toLowerCase alice_checksummed" ..
  have 1: "Insert (delegate_newTx example_world alice bob (JNum 0) (JNum 1800000000)
             (JStr ''0x1b'') (JStr ''0xaa'') (JStr ''0xbb''))
     \<in> set (fst (delegate example_world (JStr alice_checksummed) (JStr bob) (JNum 0)
                    (JNum 1800000000) (JStr ''0x1b'') (JStr ''0xaa'') (JStr ''0xbb''))) \<and>
   snd (delegate example_world (JStr alice_checksummed) (JStr bob) (JNum 0) (JNum 1800000000)
          (JStr ''0x1b'') (JStr ''0xaa'') (JStr ''0xbb'')) = Inr ()"
    using delegate_notification_outcome [where w = example_world and nonce = "JNum 0"
        and expiry = "JNum 1800000000" and sa = alice_checksummed,
        OF supplied a b signature_alice _ m] canDelegate_example
    by (simp add: lower_alice_checksummed lower_bob) (simp add: example_world_def)
  have 2: "snd (delegate hooked_world (JStr alice_checksummed) (JStr bob) (JNum 0) (JNum 1800000000)
          (JStr ''0x1b'') (JStr ''0xaa'') (JStr ''0xbb'')) = Inl network_error"
    using delegate_notification_outcome [where w = hooked_world and nonce = "JNum 0"
        and expiry = "JNum 1800000000" and sa = alice_checksummed,
        OF supplied a b signature_alice _ m] canDelegate_hooked
    by (simp add: lower_alice_checksummed lower_bob hooked_signer)
       (simp add: hooked_world_def example_world_def)
  from 1 2 show ?thesis by simp
qed

section \<open>The expiry of a delegation\<close>

lemma canDelegate_events:
  "fst (canDelegate w a d) = [] \<or>
   fst (canDelegate w a d) =
     [Query ''balanceOf'', Query ''getDelegateeByType 0'',
      Query ''getDelegateeByType 1'', Query ''delegationAllowed'']"
proof -
  have "fst (canDelegate_fetch w x) =
     [Query ''balanceOf'', Query ''getDelegateeByType 0'',
      Query ''getDelegateeByType 1'', Query ''delegationAllowed'']" for x
    by (simp add: canDelegate_fetch_def Let_def split: sum.splits option.splits)
  then show ?thesis
    by (auto simp: canDelegate_def Let_def split: sum.splits prod.splits)
       (metis fst_conv)+
qed

lemma canDelegate_no_insert: "\<not> list_ex is_Insert (fst (canDelegate w a d))"
  using canDelegate_events [of w a d] by auto

lemma notify_no_insert: "\<not> list_ex is_Insert (fst (notify w note))"
  by (simp add: notify_def split: option.splits)

lemma delegate_inserted:
  assumes "Insert tx \<in> set (fst (delegate w address delegatee nonce expiry v r s))"
  shows "\<exists>a0 d0. toString address = Inr a0 \<and> toString delegatee = Inr d0 \<and>
           tx = delegate_newTx w (toLowerCase a0) (toLowerCase d0) nonce expiry v r s \<and>
           snd (canDelegate w (JStr (toLowerCase a0)) (JStr (toLowerCase d0))) = Inr ()"
proof (cases "toString address")
  case (Inl e)
  with assms show ?thesis
    by (simp add: delegate_def split: if_splits)
next
  case a: (Inr a0)
  show ?thesis
  proof (cases "toString delegatee")
    case (Inl e)
    with assms a show ?thesis
      by (simp add: delegate_def split: if_splits)
  next
    case d: (Inr d0)
    obtain sent res where c: "canDelegate w (JStr (toLowerCase a0)) (JStr (toLowerCase d0)) = (sent, res)"
      by (cases "canDelegate w (JStr (toLowerCase a0)) (JStr (toLowerCase d0))")
    have sent: "Insert tx \<notin> set sent" for tx
      using canDelegate_events [of w "JStr (toLowerCase a0)" "JStr (toLowerCase d0)"] c by auto
    obtain sent' res' where n: "notify w ''New dydx.vote delegation sig'' = (sent', res')"
      by (cases "notify w ''New dydx.vote delegation sig''")
    have sent': "Insert tx \<notin> set sent'" for tx
      using notify_no_insert [of w "''New dydx.vote delegation sig''"] n
      by (auto simp: list_ex_iff)
    from assms a d c n sent sent' show ?thesis
      by (auto simp: delegate_def Let_def split: if_splits sum.splits option.splits)
  qed
qed

lemma delegate_newTx_expiry:
  "map_of (delegate_newTx w a d nonce expiry v r s) ''expiry'' = Some expiry"
  by (simp add: delegate_newTx_def)

text \<open>
  C10. Take two calls of \<^verbatim>\<open>delegate\<close> that differ only in the expiry and the
  signature, both expiries defined, each signature recovering to the claimed address over
  its own message. Then both reach the persistence step or neither does; when neither
  does they fail alike; when the persistence layer treats the two records alike the calls
  end alike; and every record a call hands over holds the expiry it was given, unchanged.
\<close>

theorem delegate_expiry_unchecked:
  assumes supplied1: "JUndefined \<notin> set [address, delegatee, nonce, e1, v1, r1, s1]"
    and supplied2: "JUndefined \<notin> set [address, delegatee, nonce, e2, v2, r2, s2]"
    and address: "toString address = Inr a0"
    and delegatee: "toString delegatee = Inr d0"
    and signature1: "signature_of v1 r1 s1 = Inr g1"
    and signer1: "recoverTypedSignature w
                    (createDelegateBySigMessage (JStr (toLowerCase d0)) nonce e1) g1 = Inr sa1"
    and matches1: "toLowerCase sa1 = toLowerCase a0"
    and signature2: "signature_of v2 r2 s2 = Inr g2"
    and signer2: "recoverTypedSignature w
                    (createDelegateBySigMessage (JStr (toLowerCase d0)) nonce e2) g2 = Inr sa2"
    and matches2: "toLowerCase sa2 = toLowerCase a0"
  shows "reaches_persistence (delegate w address delegatee nonce e1 v1 r1 s1) =
           reaches_persistence (delegate w address delegatee nonce e2 v2 r2 s2) \<and>
         (\<not> reaches_persistence (delegate w address delegatee nonce e1 v1 r1 s1) \<longrightarrow>
            delegate w address delegatee nonce e1 v1 r1 s1 =
            delegate w address delegatee nonce e2 v2 r2 s2) \<and>
         (insertDelegateTx w
            (delegate_newTx w (toLowerCase a0) (toLowerCase d0) nonce e1 v1 r1 s1) =
          insertDelegateTx w
            (delegate_newTx w (toLowerCase a0) (toLowerCase d0) nonce e2 v2 r2 s2) \<longrightarrow>
            snd (delegate w address delegatee nonce e1 v1 r1 s1) =
            snd (delegate w address delegatee nonce e2 v2 r2 s2)) \<and>
         (\<forall>tx. Insert tx \<in> set (fst (delegate w address delegatee nonce e1 v1 r1 s1)) \<longrightarrow>
               map_of tx ''expiry'' = Some e1) \<and>
         (\<forall>tx. Insert tx \<in> set (fst (delegate w address delegatee nonce e2 v2 r2 s2)) \<longrightarrow>
               map_of tx ''expiry'' = Some e2)"
proof -
  let ?c = "canDelegate w (JStr (toLowerCase a0)) (JStr (toLowerCase d0))"
  note d1 = delegate_after_signature
    [OF supplied1 address delegatee signature1 signer1 matches1]
  note d2 = delegate_after_signature
    [OF supplied2 address delegatee signature2 signer2 matches2]
  obtain sent res where c: "?c = (sent, res)"
    by (cases ?c)
  have sent: "\<not> list_ex is_Insert sent"
    using canDelegate_no_insert [of w "JStr (toLowerCase a0)" "JStr (toLowerCase d0)"] c
    by simp
  obtain sent' res' where n: "notify w ''New dydx.vote delegation sig'' = (sent', res')"
    by (cases "notify w ''New dydx.vote delegation sig''")
  have stored: "\<forall>tx. Insert tx \<in> set (fst (delegate w address delegatee nonce e v' r' s')) \<longrightarrow>
      map_of tx ''expiry'' = Some e" for e v' r' s'
    by (blast dest: delegate_inserted intro: delegate_newTx_expiry)
  have decision:
    "reaches_persistence (delegate w address delegatee nonce e1 v1 r1 s1) =
       reaches_persistence (delegate w address delegatee nonce e2 v2 r2 s2) \<and>
     (\<not> reaches_persistence (delegate w address delegatee nonce e1 v1 r1 s1) \<longrightarrow>
        delegate w address delegatee nonce e1 v1 r1 s1 =
        delegate w address delegatee nonce e2 v2 r2 s2) \<and>
     (insertDelegateTx w
        (delegate_newTx w (toLowerCase a0) (toLowerCase d0) nonce e1 v1 r1 s1) =
      insertDelegateTx w
        (delegate_newTx w (toLowerCase a0) (toLowerCase d0) nonce e2 v2 r2 s2) \<longrightarrow>
        snd (delegate w address delegatee nonce e1 v1 r1 s1) =
        snd (delegate w address delegatee nonce e2 v2 r2 s2))"
  proof (cases res)
    case (Inl error)
    with c sent d1 d2 show ?thesis
      by (simp add: reaches_persistence_def)
  next
    case (Inr u)
    with c sent n d1 d2 show ?thesis
      by (simp add: reaches_persistence_def Let_def split: option.splits)
  qed
  from decision stored [of e1 v1 r1 s1] stored [of e2 v2 r2 s2] show ?thesis
    by blast
qed

lemma canDelegate_noop_example:
  "canDelegate noop_world (JStr alice) (JStr bob) =
     ([Query ''balanceOf'', Query ''getDelegateeByType 0'',
       Query ''getDelegateeByType 1'', Query ''delegationAllowed''],
      Inl (new_Error ''delegatee can not be current delegatee'' 403))"
  by (simp add: canDelegate_def canDelegate_fetch_def canDelegate_checks_def
        localeCompare_same localeCompare_plain plain_alice plain_bob plain_carol lower_alice lower_bob lower_bob_upper hex_alice hex_bob
        noop_world_def example_world_def)
     (simp add: bob_def)

theorem delegate_expiry_unchecked_witness:
  "reaches_persistence (delegate example_world (JStr alice) (JStr bob) (JNum 0) (JNum 1)
      (JStr ''0x1b'') (JStr ''0xaa'') (JStr ''0xbb'')) \<and>
   reaches_persistence (delegate example_world (JStr alice) (JStr bob) (JNum 0) (JNum 1800000000)
      (JStr ''0x1b'') (JStr ''0xaa'') (JStr ''0xbb'')) \<and>
   snd (delegate example_world (JStr alice) (JStr bob) (JNum 0) (JNum 1)
      (JStr ''0x1b'') (JStr ''0xaa'') (JStr ''0xbb'')) =
   snd (delegate example_world (JStr alice) (JStr bob) (JNum 0) (JNum 1800000000)
      (JStr ''0x1b'') (JStr ''0xaa'') (JStr ''0xbb'')) \<and>
   Insert (delegate_newTx example_world alice bob (JNum 0) (JNum 1)
             (JStr ''0x1b'') (JStr ''0xaa'') (JStr ''0xbb''))
     \<in> set (fst (delegate example_world (JStr alice) (JStr bob) (JNum 0) (JNum 1)
                    (JStr ''0x1b'') (JStr ''0xaa'') (JStr ''0xbb''))) \<and>
   map_of (delegate_newTx example_world alice bob (JNum 0) (JNum 1)
             (JStr ''0x1b'') (JStr ''0xaa'') (JStr ''0xbb'')) ''expiry'' = Some (JNum 1) \<and>
   \<not> reaches_persistence (delegate noop_world (JStr alice) (JStr bob) (JNum 0) (JNum 1)
      (JStr ''0x1b'') (JStr ''0xaa'') (JStr ''0xbb'')) \<and>
   delegate noop_world (JStr alice) (JStr bob) (JNum 0) (JNum 1)
      (JStr ''0x1b'') (JStr ''0xaa'') (JStr ''0xbb'') =
   delegate noop_world (JStr alice) (JStr bob) (JNum 0) (JNum 1800000000)
      (JStr ''0x1b'') (JStr ''0xaa'') (JStr ''0xbb'')"
proof -
  have supplied: "JUndefined \<notin> set [JStr alice, JStr bob, JNum 0, JNum e,
      JStr ''0x1b'', JStr ''0xaa'', JStr ''0xbb'']" for e
    by simp
  have a: "toString (JStr alice) = Inr alice" and b: "toString (JStr bob) = Inr bob"
    by simp_all
  have signer: "recoverTypedSignature example_world d ''0xaabb1b'' = Inr alice_checksummed"
    and signer': "recoverTypedSignature noop_world d ''0xaabb1b'' = Inr alice_checksummed" for d
    by (simp_all add: noop_world_def example_world_def)
  have m: "toLowerCase alice_checksummed = toLowerCase alice"
    by (simp add: lower_alice lower_alice_checksummed)
  have store: "insertDelegateTx example_world tx = None" for tx
    by (simp add: example_world_def)
  have reached: "reaches_persistence (delegate example_world (JStr alice) (JStr bob) (JNum 0) (JNum 1)
      (JStr ''0x1b'') (JStr ''0xaa'') (JStr ''0xbb''))"
    by (simp add: reaches_persistence_def delegate_def signature_alice signer lower_alice
          lower_bob lower_alice_checksummed localeCompare_same localeCompare_plain plain_alice plain_bob plain_carol store canDelegate_example
          split: prod.splits)
  have rejected: "\<not> reaches_persistence (delegate noop_world (JStr alice) (JStr bob) (JNum 0) (JNum 1)
      (JStr ''0x1b'') (JStr ''0xaa'') (JStr ''0xbb''))"
    by (simp add: reaches_persistence_def delegate_def signature_alice signer' lower_alice
          lower_bob lower_alice_checksummed localeCompare_same localeCompare_plain plain_alice plain_bob plain_carol canDelegate_noop_example
          new_Error_def)
  have same_store:
    "insertDelegateTx example_world
       (delegate_newTx example_world (toLowerCase alice) (toLowerCase bob) (JNum 0) (JNum 1)
          (JStr ''0x1b'') (JStr ''0xaa'') (JStr ''0xbb'')) =
     insertDelegateTx example_world
       (delegate_newTx example_world (toLowerCase alice) (toLowerCase bob) (JNum 0)
          (JNum 1800000000) (JStr ''0x1b'') (JStr ''0xaa'') (JStr ''0xbb''))"
    by (simp add: store)
  note accepted = delegate_expiry_unchecked [where w = example_world and ?e1.0 = "JNum 1"
      and ?e2.0 = "JNum 1800000000", OF supplied supplied a b signature_alice signer m
      signature_alice signer m]
  note refused = delegate_expiry_unchecked [where w = noop_world and ?e1.0 = "JNum 1"
      and ?e2.0 = "JNum 1800000000", OF supplied supplied a b signature_alice signer' m
      signature_alice signer' m]
  from reached accepted have 1:
    "reaches_persistence (delegate example_world (JStr alice) (JStr bob) (JNum 0)
       (JNum 1800000000) (JStr ''0x1b'') (JStr ''0xaa'') (JStr ''0xbb''))"
    by blast
  from same_store accepted have 2:
    "snd (delegate example_world (JStr alice) (JStr bob) (JNum 0) (JNum 1)
        (JStr ''0x1b'') (JStr ''0xaa'') (JStr ''0xbb'')) =
     snd (delegate example_world (JStr alice) (JStr bob) (JNum 0) (JNum 1800000000)
        (JStr ''0x1b'') (JStr ''0xaa'') (JStr ''0xbb''))"
    by blast
  have handed:
    "Insert (delegate_newTx example_world alice bob (JNum 0) (JNum 1)
               (JStr ''0x1b'') (JStr ''0xaa'') (JStr ''0xbb''))
       \<in> set (fst (delegate example_world (JStr alice) (JStr bob) (JNum 0) (JNum 1)
                      (JStr ''0x1b'') (JStr ''0xaa'') (JStr ''0xbb'')))"
    by (simp add: delegate_def signature_alice signer lower_alice lower_bob
          lower_alice_checksummed localeCompare_same localeCompare_plain plain_alice plain_bob plain_carol store canDelegate_example
          split: prod.splits)
  from handed accepted have 3:
    "map_of (delegate_newTx example_world alice bob (JNum 0) (JNum 1)
               (JStr ''0x1b'') (JStr ''0xaa'') (JStr ''0xbb'')) ''expiry'' = Some (JNum 1)"
    by blast
  from rejected refused have 4:
    "delegate noop_world (JStr alice) (JStr bob) (JNum 0) (JNum 1)
        (JStr ''0x1b'') (JStr ''0xaa'') (JStr ''0xbb'') =
     delegate noop_world (JStr alice) (JStr bob) (JNum 0) (JNum 1800000000)
        (JStr ''0x1b'') (JStr ''0xaa'') (JStr ''0xbb'')"
    by blast
  from reached rejected 1 2 handed 3 4 show ?thesis
    by (intro conjI)
qed

section \<open>Lowercased addresses\<close>

lemma vote_newTx_lowercased:
  "address_fields_lowercased (vote_newTx w (toLowerCase a0) proposalId support v r s)"
  by (simp add: address_fields_lowercased_def vote_newTx_def lowercased_def toLowerCase_idem)

lemma delegate_newTx_lowercased:
  "address_fields_lowercased
     (delegate_newTx w (toLowerCase a0) (toLowerCase d0) nonce expiry v r s)"
  by (simp add: address_fields_lowercased_def delegate_newTx_def lowercased_def toLowerCase_idem)

lemma canDelegate_passed:
  assumes "snd (canDelegate w (JStr a) (JStr d)) = Inr ()"
  shows "isAddress w (toLowerCase a) \<and> (toLowerCase d = ''0x'' \<or> isAddress w (toLowerCase d))"
  using assms
  by (auto simp: canDelegate_def Let_def split: if_splits)

text \<open>Whatever is bound, \<^verbatim>\<open>canVote\<close> hands nothing to the persistence layer.\<close>

lemma canVote_fetch_no_insert: "Insert tx \<notin> set (fst (canVote_fetch scope w a p))"
  by (simp add: canVote_fetch_def Let_def split: sum.splits option.splits)

lemma canVote_in_no_insert: "Insert tx \<notin> set (fst (canVote_in scope w a p))"
proof (cases "toString a")
  case (Inl e)
  then show ?thesis by (simp add: canVote_in_def)
next
  case (Inr a0)
  obtain sent res where f: "canVote_fetch scope w (toLowerCase a0) p = (sent, res)"
    by (cases "canVote_fetch scope w (toLowerCase a0) p")
  with canVote_fetch_no_insert [of tx scope w "toLowerCase a0" p]
  have "Insert tx \<notin> set sent" by simp
  with Inr f show ?thesis
    by (cases res) (auto simp: canVote_in_def Let_def)
qed

lemma vote_in_inserted:
  assumes "Insert tx \<in> set (fst (vote_in scope w address proposalId support v r s))"
  shows "\<exists>a0. toString address = Inr a0 \<and>
           tx = vote_newTx w (toLowerCase a0) proposalId support v r s"
proof (cases "toString address")
  case (Inl e)
  with assms show ?thesis
    by (simp add: vote_in_def split: if_splits)
next
  case a: (Inr a0)
  obtain sent res where
    c: "canVote_in scope w (JStr (toLowerCase a0)) proposalId = (sent, res)"
    by (cases "canVote_in scope w (JStr (toLowerCase a0)) proposalId")
  have sent: "Insert tx \<notin> set sent" for tx
    using canVote_in_no_insert [of tx scope w "JStr (toLowerCase a0)" proposalId] c by simp
  obtain sent' res' where n: "notify w ''New dydx.vote voting sig'' = (sent', res')"
    by (cases "notify w ''New dydx.vote voting sig''")
  have sent': "Insert tx \<notin> set sent'" for tx
    using notify_no_insert [of w "''New dydx.vote voting sig''"] n
    by (auto simp: list_ex_iff)
  from assms a c n sent sent' show ?thesis
    by (auto simp: vote_in_def Let_def split: if_splits sum.splits option.splits)
qed

text \<open>
  Past the reads, with the name bound, \<^verbatim>\<open>canVote\<close> answers as its three checks do on
  the lowercased address.
\<close>

lemma canVote_in_checks:
  assumes "resolve scope ''governorBravo'' = Inr ()"
    and "isAddress w (toLowerCase a)"
    and "p \<noteq> JUndefined"
    and "getProposalById w p = Inr pr"
    and "getVoteOnProposal w p (toLowerCase a) = Inr rc"
    and "getBlockNumber w = Inr cb"
    and "voteAllowed w (toLowerCase a) p = None"
    and "getPowerAtBlock w (toLowerCase a) (startBlock pr) 0 = Inr votes"
  shows "canVote_in scope w (JStr a) p =
           ([Query ''getProposalById'', Query ''getVoteOnProposal'', Query ''getBlockNumber'',
             Query ''voteAllowed'', Query ''getPowerAtBlock''],
            canVote_checks w (toLowerCase a) pr votes rc cb)"
proof -
  have "canVote_fetch scope w (toLowerCase a) p =
      ([Query ''getProposalById'', Query ''getVoteOnProposal'', Query ''getBlockNumber'',
        Query ''voteAllowed'', Query ''getPowerAtBlock''], Inr (pr, rc, cb, votes))"
    using assms by (simp add: canVote_fetch_def)
  with assms(2,3) show ?thesis
    by (simp add: canVote_in_def typeof_undefined)
qed

text \<open>Nothing but the recovery depends on the recovery.\<close>

lemma parts_without_signer:
  "canVote_fetch scope (w \<lparr> recoverTypedSignature := g \<rparr>) = canVote_fetch scope w"
  "canVote_checks (w \<lparr> recoverTypedSignature := g \<rparr>) = canVote_checks w"
  "canDelegate_fetch (w \<lparr> recoverTypedSignature := g \<rparr>) = canDelegate_fetch w"
  "canDelegate_checks (w \<lparr> recoverTypedSignature := g \<rparr>) = canDelegate_checks w"
  by (intro ext, simp add: canVote_fetch_def canVote_checks_def
        canDelegate_fetch_def canDelegate_checks_def first_rejected_def Let_def
        cong: if_cong sum.case_cong prod.case_cong option.case_cong)+

lemma world_without_signer [simp]:
  "canVote_in scope (w \<lparr> recoverTypedSignature := g \<rparr>) = canVote_in scope w"
  "canDelegate (w \<lparr> recoverTypedSignature := g \<rparr>) = canDelegate w"
  "notify (w \<lparr> recoverTypedSignature := g \<rparr>) = notify w"
  "vote_newTx (w \<lparr> recoverTypedSignature := g \<rparr>) = vote_newTx w"
  "delegate_newTx (w \<lparr> recoverTypedSignature := g \<rparr>) = delegate_newTx w"
  by (intro ext, simp add: canVote_in_def canDelegate_def parts_without_signer notify_def
        vote_newTx_def delegate_newTx_def Let_def
        cong: if_cong sum.case_cong prod.case_cong option.case_cong)+

lemma vote_signer_case:
  assumes "\<forall>x. toLowerCase (f x) = toLowerCase x"
  shows "vote_in scope (w \<lparr> recoverTypedSignature :=
                     (\<lambda>data signature. map_sum id f (recoverTypedSignature w data signature)) \<rparr>)
           address proposalId support v r s =
         vote_in scope w address proposalId support v r s"
  using assms
  by (cases "signature_of v r s";
      cases "recoverTypedSignature w (createVoteBySigMessage proposalId support)
               (projr (signature_of v r s))")
     (simp_all add: vote_in_def Let_def
        cong: if_cong sum.case_cong prod.case_cong option.case_cong)

lemma delegate_signer_case:
  assumes "\<forall>x. toLowerCase (f x) = toLowerCase x"
  shows "delegate (w \<lparr> recoverTypedSignature :=
                     (\<lambda>data signature. map_sum id f (recoverTypedSignature w data signature)) \<rparr>)
           address delegatee nonce expiry v r s =
         delegate w address delegatee nonce expiry v r s"
proof (cases "signature_of v r s")
  case (Inl e)
  then show ?thesis
    by (simp add: delegate_def Let_def split: sum.splits)
next
  case (Inr g)
  show ?thesis
  proof (cases "toString address"; cases "toString delegatee")
    fix a0 d0
    assume t: "toString address = Inr a0" "toString delegatee = Inr d0"
    show ?thesis
      using Inr t assms
      by (cases "recoverTypedSignature w
                   (createDelegateBySigMessage (JStr (toLowerCase d0)) nonce expiry) g")
         (simp_all add: delegate_def Let_def toLowerCase_idem
            cong: if_cong sum.case_cong prod.case_cong option.case_cong)
  qed (simp_all add: delegate_def)
qed

lemma canDelegate_delegate_case:
  assumes "\<forall>x. toLowerCase (f x) = toLowerCase x"
  shows "canDelegate (w \<lparr> getDelegateeByType :=
                     (\<lambda>a t. map_sum id f (getDelegateeByType w a t)) \<rparr>) address delegatee =
         canDelegate w address delegatee"
proof -
  let ?w = "w \<lparr> getDelegateeByType := (\<lambda>a t. map_sum id f (getDelegateeByType w a t)) \<rparr>"
  have race: "first_rejected ?w = first_rejected w"
    by (intro ext) (simp add: first_rejected_def)
  have fetch: "canDelegate_fetch ?w a =
        map_prod id (map_sum id (\<lambda>(b, dv, dp). (b, f dv, f dp))) (canDelegate_fetch w a)" for a
    by (cases "balanceOf w a"; cases "getDelegateeByType w a 0";
        cases "getDelegateeByType w a 1"; cases "delegationAllowed w a")
       (simp_all add: canDelegate_fetch_def race Let_def)
  have checks: "canDelegate_checks ?w d b (f dv) (f dp) = canDelegate_checks w d b dv dp"
    for d b dv dp
    using assms by (simp add: canDelegate_checks_def)
  have valid: "isAddress ?w = isAddress w"
    by simp
  show ?thesis
  proof (cases "toString (if delegatee = JUndefined then JStr ''0x'' else delegatee)")
    case (Inl e)
    then show ?thesis by (simp add: canDelegate_def)
  next
    case d: (Inr d0)
    show ?thesis
    proof (cases "toString address")
      case (Inl e)
      with d show ?thesis by (simp add: canDelegate_def)
    next
      case a: (Inr a0)
      obtain sent res where c: "canDelegate_fetch w (toLowerCase a0) = (sent, res)"
        by (cases "canDelegate_fetch w (toLowerCase a0)")
      show ?thesis
      proof (cases res)
        case (Inl error)
        with d a c show ?thesis
          by (simp add: canDelegate_def Let_def fetch valid)
      next
        case (Inr t)
        then obtain b dv dp where "res = Inr (b, dv, dp)"
          by (cases t) simp
        with d a c show ?thesis
          by (simp add: canDelegate_def Let_def fetch valid checks)
      qed
    qed
  qed
qed

text \<open>
  C8. Every record that \<^verbatim>\<open>vote\<close> or \<^verbatim>\<open>delegate\<close> hands to the persistence layer has
  lowercased address fields, and a record handed over by \<^verbatim>\<open>delegate\<close> holds a valid
  source address and a delegatee that is valid or the sentinel. Every comparison of
  addresses is made on lowercased values: replacing the addresses given by the caller,
  the signer returned by the recovery, or the current delegates returned by the chain by
  values that differ only in case (\<open>f\<close> changes case only) changes nothing in what the four
  functions do. The allow-list holds lowercased entries only.
\<close>



text \<open>
  C8. Whatever names are bound in \<^verbatim>\<open>canVote\<close> (so also in the module as it is, where
  \<^verbatim>\<open>vote\<close> is \<open>vote_in canVote_scope\<close> and hands over nothing):
  \<^item> every record that \<^verbatim>\<open>vote\<close> hands to the persistence layer has as \<^verbatim>\<open>from\<close> the
    claimed address lowercased, and every record that \<^verbatim>\<open>delegate\<close> hands over has as
    \<^verbatim>\<open>from\<close> and \<^verbatim>\<open>delegatee\<close> the two addresses lowercased, the first a valid
    address, the second valid or the sentinel;
  \<^item> the comparison with the signer and the comparison with the current delegates are
    made on lowercased values: replacing the addresses given by the caller, the signer
    returned by the recovery, or the current delegates returned by the chain by values
    that differ only in case (\<open>f\<close> changes case only) changes nothing in what the four
    functions do;
  \<^item> the allow-list is searched for the lowercased address: where the reads succeed, the
    window is open, no vote is recorded and the power is below the threshold,
    \<^verbatim>\<open>canVote\<close> passes exactly when the lowercased address is one of the two listed, and
    fails with "dYdX voting power is too low" otherwise.
\<close>

theorem addresses_lowercased:
  assumes variant: "\<forall>x. toLowerCase (f x) = toLowerCase x"
  shows "(Insert tx \<in> set (fst (vote_in scope w address proposalId support v r s)) \<longrightarrow>
            (\<exists>a0. toString address = Inr a0 \<and>
                  map_of tx ''from'' = Some (JStr (toLowerCase a0))) \<and>
            address_fields_lowercased tx) \<and>
         (Insert tx \<in> set (fst (delegate w address delegatee nonce expiry v r s)) \<longrightarrow>
            (\<exists>a0 d0. toString address = Inr a0 \<and> toString delegatee = Inr d0 \<and>
                  map_of tx ''from'' = Some (JStr (toLowerCase a0)) \<and>
                  map_of tx ''delegatee'' = Some (JStr (toLowerCase d0)) \<and>
                  isAddress w (toLowerCase a0) \<and>
                  (toLowerCase d0 = ''0x'' \<or> isAddress w (toLowerCase d0))) \<and>
            address_fields_lowercased tx) \<and>
         vote_in scope w (JStr (f x)) proposalId support v r s =
           vote_in scope w (JStr x) proposalId support v r s \<and>
         delegate w (JStr (f x)) (JStr (f y)) nonce expiry v r s =
           delegate w (JStr x) (JStr y) nonce expiry v r s \<and>
         canVote_in scope w (JStr (f x)) proposalId = canVote_in scope w (JStr x) proposalId \<and>
         canDelegate w (JStr (f x)) (JStr (f y)) = canDelegate w (JStr x) (JStr y) \<and>
         vote_in scope
              (w \<lparr> recoverTypedSignature :=
                    (\<lambda>data signature. map_sum id f (recoverTypedSignature w data signature)) \<rparr>)
              address proposalId support v r s =
           vote_in scope w address proposalId support v r s \<and>
         delegate (w \<lparr> recoverTypedSignature :=
                    (\<lambda>data signature. map_sum id f (recoverTypedSignature w data signature)) \<rparr>)
              address delegatee nonce expiry v r s =
           delegate w address delegatee nonce expiry v r s \<and>
         canDelegate (w \<lparr> getDelegateeByType :=
                    (\<lambda>a t. map_sum id f (getDelegateeByType w a t)) \<rparr>) address delegatee =
           canDelegate w address delegatee \<and>
         (resolve scope ''governorBravo'' = Inr () \<and> isAddress w (toLowerCase a) \<and>
          proposalId \<noteq> JUndefined \<and>
          getProposalById w proposalId = Inr pr \<and>
          getVoteOnProposal w proposalId (toLowerCase a) = Inr rc \<and>
          getBlockNumber w = Inr cb \<and>
          voteAllowed w (toLowerCase a) proposalId = None \<and>
          getPowerAtBlock w (toLowerCase a) (startBlock pr) 0 = Inr votes \<and>
          startBlock pr < cb \<and> cb < endBlock pr - 2400 \<and> \<not> canceled pr \<and>
          js_lt (parseInt w votes) (MIN_COMP w) \<and> votingPower rc = 0 \<longrightarrow>
            snd (canVote_in scope w (JStr a) proposalId) =
              (if toLowerCase a \<in> {''0x5b3bffc0bcf8d4caec873fdcf719f60725767c98'',
                                    ''0x2b384212edc04ae8bb41738d05ba20e33277bf33''}
               then Inr ()
               else Inl (new_Error ''dYdX voting power is too low'' 403)))"
proof -
  have voted: "Insert tx \<in> set (fst (vote_in scope w address proposalId support v r s)) \<longrightarrow>
            (\<exists>a0. toString address = Inr a0 \<and>
                  map_of tx ''from'' = Some (JStr (toLowerCase a0))) \<and>
            address_fields_lowercased tx"
    by (auto dest!: vote_in_inserted simp: vote_newTx_lowercased) (simp add: vote_newTx_def)
  have delegated: "Insert tx \<in> set (fst (delegate w address delegatee nonce expiry v r s)) \<longrightarrow>
            (\<exists>a0 d0. toString address = Inr a0 \<and> toString delegatee = Inr d0 \<and>
                  map_of tx ''from'' = Some (JStr (toLowerCase a0)) \<and>
                  map_of tx ''delegatee'' = Some (JStr (toLowerCase d0)) \<and>
                  isAddress w (toLowerCase a0) \<and>
                  (toLowerCase d0 = ''0x'' \<or> isAddress w (toLowerCase d0))) \<and>
            address_fields_lowercased tx"
  proof
    assume "Insert tx \<in> set (fst (delegate w address delegatee nonce expiry v r s))"
    then obtain a0 d0 where t: "toString address = Inr a0" "toString delegatee = Inr d0"
      and tx: "tx = delegate_newTx w (toLowerCase a0) (toLowerCase d0) nonce expiry v r s"
      and ok: "snd (canDelegate w (JStr (toLowerCase a0)) (JStr (toLowerCase d0))) = Inr ()"
      by (blast dest: delegate_inserted)
    from ok have "isAddress w (toLowerCase a0) \<and>
        (toLowerCase d0 = ''0x'' \<or> isAddress w (toLowerCase d0))"
      by (auto dest!: canDelegate_passed simp: toLowerCase_idem)
    with t tx show "(\<exists>a0 d0. toString address = Inr a0 \<and> toString delegatee = Inr d0 \<and>
                  map_of tx ''from'' = Some (JStr (toLowerCase a0)) \<and>
                  map_of tx ''delegatee'' = Some (JStr (toLowerCase d0)) \<and>
                  isAddress w (toLowerCase a0) \<and>
                  (toLowerCase d0 = ''0x'' \<or> isAddress w (toLowerCase d0))) \<and>
            address_fields_lowercased tx"
      by (simp add: delegate_newTx_lowercased) (simp add: delegate_newTx_def)
  qed
  have inputs:
    "vote_in scope w (JStr (f x)) proposalId support v r s =
       vote_in scope w (JStr x) proposalId support v r s"
    "delegate w (JStr (f x)) (JStr (f y)) nonce expiry v r s =
       delegate w (JStr x) (JStr y) nonce expiry v r s"
    "canVote_in scope w (JStr (f x)) proposalId = canVote_in scope w (JStr x) proposalId"
    "canDelegate w (JStr (f x)) (JStr (f y)) = canDelegate w (JStr x) (JStr y)"
    using variant
    by (simp_all add: vote_in_def delegate_def canVote_in_def canDelegate_def)
  have listed: "resolve scope ''governorBravo'' = Inr () \<and> isAddress w (toLowerCase a) \<and>
          proposalId \<noteq> JUndefined \<and>
          getProposalById w proposalId = Inr pr \<and>
          getVoteOnProposal w proposalId (toLowerCase a) = Inr rc \<and>
          getBlockNumber w = Inr cb \<and>
          voteAllowed w (toLowerCase a) proposalId = None \<and>
          getPowerAtBlock w (toLowerCase a) (startBlock pr) 0 = Inr votes \<and>
          startBlock pr < cb \<and> cb < endBlock pr - 2400 \<and> \<not> canceled pr \<and>
          js_lt (parseInt w votes) (MIN_COMP w) \<and> votingPower rc = 0 \<longrightarrow>
            snd (canVote_in scope w (JStr a) proposalId) =
              (if toLowerCase a \<in> {''0x5b3bffc0bcf8d4caec873fdcf719f60725767c98'',
                                    ''0x2b384212edc04ae8bb41738d05ba20e33277bf33''}
               then Inr ()
               else Inl (new_Error ''dYdX voting power is too low'' 403))"
    by (clarify, subst canVote_in_checks, assumption+)
       (simp add: canVote_checks_def isWhitelisted_def)
  from voted delegated inputs listed
    vote_signer_case [OF variant, of scope w address proposalId support v r s]
    delegate_signer_case [OF variant, of w address delegatee nonce expiry v r s]
    canDelegate_delegate_case [OF variant, of w address delegatee]
  show ?thesis
    by (intro conjI)
qed


lemma resolve_bound: "resolve bound_scope ''governorBravo'' = Inr ()"
  by (simp add: resolve_def bound_scope_def)

theorem addresses_lowercased_witness:
  "(\<forall>x. toLowerCase (if x = alice then alice_checksummed else x) = toLowerCase x) \<and>
   resolve bound_scope ''governorBravo'' = Inr () \<and>
   Insert (vote_newTx example_world alice (JNum 7) (JBool True)
             (JStr ''0x1b'') (JStr ''0xaa'') (JStr ''0xbb''))
     \<in> set (fst (vote_in bound_scope example_world (JStr alice_checksummed) (JNum 7) (JBool True)
                    (JStr ''0x1b'') (JStr ''0xaa'') (JStr ''0xbb''))) \<and>
   map_of (vote_newTx example_world alice (JNum 7) (JBool True)
             (JStr ''0x1b'') (JStr ''0xaa'') (JStr ''0xbb'')) ''from'' = Some (JStr alice) \<and>
   address_fields_lowercased
     (vote_newTx example_world alice (JNum 7) (JBool True)
        (JStr ''0x1b'') (JStr ''0xaa'') (JStr ''0xbb'')) \<and>
   Insert (delegate_newTx example_world alice bob (JNum 0) (JNum 1800000000)
             (JStr ''0x1b'') (JStr ''0xaa'') (JStr ''0xbb''))
     \<in> set (fst (delegate example_world (JStr alice_checksummed) (JStr bob) (JNum 0)
                    (JNum 1800000000) (JStr ''0x1b'') (JStr ''0xaa'') (JStr ''0xbb''))) \<and>
   address_fields_lowercased
     (delegate_newTx example_world alice bob (JNum 0) (JNum 1800000000)
        (JStr ''0x1b'') (JStr ''0xaa'') (JStr ''0xbb'')) \<and>
   vote_in bound_scope example_world (JStr alice_checksummed) (JNum 7) (JBool True)
        (JStr ''0x1b'') (JStr ''0xaa'') (JStr ''0xbb'') =
   vote_in bound_scope example_world (JStr alice) (JNum 7) (JBool True)
        (JStr ''0x1b'') (JStr ''0xaa'') (JStr ''0xbb'') \<and>
   snd (canVote_in bound_scope poor_world (JStr alice_checksummed) (JNum 7)) = Inr () \<and>
   snd (canVote_in bound_scope poor_world (JStr carol) (JNum 7)) =
     Inl (new_Error ''dYdX voting power is too low'' 403)"
proof -
  let ?f = "\<lambda>x. if x = alice then alice_checksummed else x"
  let ?vtx = "vote_newTx example_world alice (JNum 7) (JBool True)
                (JStr ''0x1b'') (JStr ''0xaa'') (JStr ''0xbb'')"
  let ?dtx = "delegate_newTx example_world alice bob (JNum 0) (JNum 1800000000)
                (JStr ''0x1b'') (JStr ''0xaa'') (JStr ''0xbb'')"
  have variant: "\<forall>x. toLowerCase (?f x) = toLowerCase x"
    by (simp add: lower_alice lower_alice_checksummed)
  have signer: "recoverTypedSignature example_world d ''0xaabb1b'' = Inr alice_checksummed" for d
    by (simp add: example_world_def)
  have store: "insertDelegateTx example_world tx = None" "insertVoteTx example_world tx = None"
    for tx
    by (simp_all add: example_world_def)
  have quiet: "notify example_world m = ([], Inr ())" for m
    by (simp add: notify_def example_world_def)
  have eligible: "canVote_in bound_scope example_world (JStr alice) (JNum 7) =
      ([Query ''getProposalById'', Query ''getVoteOnProposal'', Query ''getBlockNumber'',
        Query ''voteAllowed'', Query ''getPowerAtBlock''], Inr ())"
    by (subst canVote_in_checks [where pr = "\<lparr> startBlock = 1000, endBlock = 9000, canceled = False \<rparr>"
          and rc = "\<lparr> votingPower = 0 \<rparr>" and cb = 2000 and votes = 150])
       (simp_all add: resolve_bound lower_alice hex_alice example_world_def canVote_checks_def)
  have voted: "Insert ?vtx
     \<in> set (fst (vote_in bound_scope example_world (JStr alice_checksummed) (JNum 7) (JBool True)
                    (JStr ''0x1b'') (JStr ''0xaa'') (JStr ''0xbb'')))"
    by (simp add: vote_in_def signature_alice signer lower_alice lower_alice_checksummed
          localeCompare_same eligible store quiet)
  have delegated: "Insert ?dtx
     \<in> set (fst (delegate example_world (JStr alice_checksummed) (JStr bob) (JNum 0)
                    (JNum 1800000000) (JStr ''0x1b'') (JStr ''0xaa'') (JStr ''0xbb'')))"
    by (simp add: delegate_def signature_alice signer lower_alice lower_bob
          lower_alice_checksummed localeCompare_same store canDelegate_example quiet)
  have bob_same: "?f bob = bob"
    by (simp add: bob_def alice_def)
  note v = addresses_lowercased [where f = ?f and scope = bound_scope and w = example_world
      and address = "JStr alice_checksummed" and proposalId = "JNum 7" and support = "JBool True"
      and v = "JStr ''0x1b''" and r = "JStr ''0xaa''" and s = "JStr ''0xbb''"
      and x = alice and y = bob and tx = ?vtx, OF variant]
  note d = addresses_lowercased [where f = ?f and w = example_world
      and address = "JStr alice_checksummed" and delegatee = "JStr bob" and nonce = "JNum 0"
      and expiry = "JNum 1800000000"
      and v = "JStr ''0x1b''" and r = "JStr ''0xaa''" and s = "JStr ''0xbb''"
      and tx = ?dtx, OF variant]
  note la = addresses_lowercased [where f = ?f and scope = bound_scope and w = poor_world
      and proposalId = "JNum 7" and a = alice_checksummed
      and pr = "\<lparr> startBlock = 1000, endBlock = 9000, canceled = False \<rparr>"
      and rc = "\<lparr> votingPower = 0 \<rparr>" and cb = 2000 and votes = 50, OF variant,
      THEN conjunct2, THEN conjunct2, THEN conjunct2, THEN conjunct2, THEN conjunct2,
      THEN conjunct2, THEN conjunct2, THEN conjunct2, THEN conjunct2]
  note lc = addresses_lowercased [where f = ?f and scope = bound_scope and w = poor_world
      and proposalId = "JNum 7" and a = carol
      and pr = "\<lparr> startBlock = 1000, endBlock = 9000, canceled = False \<rparr>"
      and rc = "\<lparr> votingPower = 0 \<rparr>" and cb = 2000 and votes = 50, OF variant,
      THEN conjunct2, THEN conjunct2, THEN conjunct2, THEN conjunct2, THEN conjunct2,
      THEN conjunct2, THEN conjunct2, THEN conjunct2, THEN conjunct2]
  from voted v [THEN conjunct1]
  have 1: "map_of ?vtx ''from'' = Some (JStr alice)" "address_fields_lowercased ?vtx"
    by (auto simp: lower_alice_checksummed)
  from delegated d [THEN conjunct2, THEN conjunct1]
  have 2: "address_fields_lowercased ?dtx"
    by blast
  from v [THEN conjunct2, THEN conjunct2, THEN conjunct1]
  have 3: "vote_in bound_scope example_world (JStr alice_checksummed) (JNum 7) (JBool True)
        (JStr ''0x1b'') (JStr ''0xaa'') (JStr ''0xbb'') =
     vote_in bound_scope example_world (JStr alice) (JNum 7) (JBool True)
        (JStr ''0x1b'') (JStr ''0xaa'') (JStr ''0xbb'')"
    by simp
  have poor: "isAddress poor_world = hex_address"
    "getProposalById poor_world (JNum 7) =
       Inr \<lparr> startBlock = 1000, endBlock = 9000, canceled = False \<rparr>"
    "getVoteOnProposal poor_world (JNum 7) z = Inr \<lparr> votingPower = 0 \<rparr>"
    "getBlockNumber poor_world = Inr 2000"
    "voteAllowed poor_world z (JNum 7) = None"
    "getPowerAtBlock poor_world z 1000 0 = Inr 50"
    "js_lt (parseInt poor_world 50) (MIN_COMP poor_world)" for z
    by (simp_all add: poor_world_def example_world_def)
  have hex_carol: "hex_address carol"
    by (simp add: carol_def hex_address_def)
  from la
  have 4: "snd (canVote_in bound_scope poor_world (JStr alice_checksummed) (JNum 7)) = Inr ()"
    by (simp add: resolve_bound poor lower_alice_checksummed hex_alice) (simp add: alice_def)
  from lc
  have 5: "snd (canVote_in bound_scope poor_world (JStr carol) (JNum 7)) =
     Inl (new_Error ''dYdX voting power is too low'' 403)"
    by (simp add: resolve_bound poor lower_carol hex_carol) (simp add: carol_def)
  from variant resolve_bound voted 1 delegated 2 3 4 5 show ?thesis
    by (intro conjI)
qed

end
